theory Spec2Isabelle
  imports Complex_Main
begin

section \<open>The Line-us plotter extension: lus\_parser\_sender.py\<close>

text \<open>
  A shallow embedding of the geometry-to-motion pipeline of \<^verbatim>\<open>lus_parser_sender.py\<close>.
  Python strings are lists of 8-bit characters, read as code points; Python floats are
  idealised as real numbers; the fields of the \<^verbatim>\<open>LUS\<close> object are the fields of the record
  \<open>state\<close>, threaded through every method; everything the program does to the outside
  (bytes sent on the socket, text written to the file, messages shown to the user, sleeps)
  is recorded in order in the field \<open>trace\<close>.
\<close>

subsection \<open>Data model\<close>

datatype error =
    AttributeError | IndexError | TypeError | ValueError | UnboundLocalError
  | KeyError | OverflowError | RecursionError | UnicodeDecodeError | OSError

text \<open>What the outside world sees, in the order in which it happens.\<close>

datatype event =
    Sent string        \<comment> \<open>\<^verbatim>\<open>self._sock.sendall(bytes)\<close>\<close>
  | Wrote string       \<comment> \<open>\<^verbatim>\<open>self.fil.write(text)\<close>\<close>
  | Slept real         \<comment> \<open>\<^verbatim>\<open>time.sleep(seconds)\<close>\<close>
  | ErrMsg string      \<comment> \<open>\<^verbatim>\<open>inkex.errormsg(text)\<close>\<close>
  | SockClose          \<comment> \<open>\<^verbatim>\<open>self._sock.close()\<close>\<close>
  | FileClose          \<comment> \<open>the file is closed, by \<^verbatim>\<open>close()\<close> or by leaving \<^verbatim>\<open>with\<close>\<close>

text \<open>One call of \<^verbatim>\<open>recv(1)\<close>: a byte arrives, or the call raises.\<close>

datatype recv_event = Byte char | RecvFails

datatype resource = Absent | Opened | Closed

text \<open>
  What \<^verbatim>\<open>self._sock.connect\<close> will do: succeed, raise a \<^verbatim>\<open>ConnectionError\<close>, or raise
  another \<^verbatim>\<open>OSError\<close> (a name that does not resolve, a timeout).
\<close>

datatype connect_result = Connects | Refused | Unreachable

text \<open>
  An element of the document, as lxml shows it: its tag (comments and processing instructions
  have a tag that is not a string), its attributes in order, its children in order.
\<close>

datatype tagv = Tag string | NonStr

datatype node = Node (tag: tagv) (attrib: "(string \<times> string) list") (children: "node list")

record options =
  smoothness :: real
  penDelay :: real
  tab :: string
  layernumber :: int
  manualType :: string
  WalkDistance :: int

type_synonym transform = "(real \<times> real \<times> real) \<times> (real \<times> real \<times> real)"

text \<open>
  A transform as the program holds it: a plain list of two rows (the initial
  \<^verbatim>\<open>self.svg_transform\<close>, and what \<^verbatim>\<open>compose_transform\<close> and \<^verbatim>\<open>parse_transform\<close> return), or
  an inkex \<^verbatim>\<open>Transform\<close> object. The operator \<^verbatim>\<open>@\<close> is defined by the object: with a plain
  list on its left it raises \<^verbatim>\<open>TypeError\<close>.
\<close>

datatype matrix = PlainList transform | TransformObject transform

fun rows :: "matrix \<Rightarrow> transform" where
  "rows (PlainList m) = m"
| "rows (TransformObject m) = m"

record state =
  pen_is_up :: bool
  fX :: "real option"
  fY :: "real option"
  fPrevX :: "real option"
  fPrevY :: "real option"
  ptFirst :: "(real option \<times> real option) option"
  node_count :: int
  node_target :: int
  path_count :: int
  layers_plotted :: int
  svg_layer :: int
  svg_node_count :: int
  svg_data_read :: bool
  svg_last_path :: int
  svg_last_path_NC :: int
  svg_total_delta_X :: real
  svg_total_delta_Y :: real
  svg_width :: "real option"
  svg_height :: "real option"
  svg_transform :: matrix
  warnings :: "string list"
  LU :: bool
  GF :: bool
  all_layers :: bool
  plot_current_layer :: bool
  connected :: bool
  opts :: options
  svg :: node
  sock :: resource
  fil :: resource
  inbox :: "recv_event list"      \<comment> \<open>what the successive \<^verbatim>\<open>recv(1)\<close> calls will return\<close>
  send_faults :: "bool list"      \<comment> \<open>whether the successive \<^verbatim>\<open>sendall\<close> calls will raise\<close>
  connect_env :: connect_result
  open_env :: bool                \<comment> \<open>whether \<^verbatim>\<open>open(Gcode_file, 'w')\<close> will succeed\<close>
  trace :: "event list"

text \<open>
  A method returns normally with a value, raises an exception (the state reached when it was
  raised is kept: what was sent stays sent), or never returns (\<^verbatim>\<open>recv\<close> blocks for ever
  once \<open>inbox\<close> is used up, or a loop does not end).
\<close>

datatype 'a outcome = Ok 'a | Raise error state | Hang

definition obind :: "'a outcome \<Rightarrow> ('a \<Rightarrow> 'b outcome) \<Rightarrow> 'b outcome" where
  "obind m f = (case m of Ok x \<Rightarrow> f x | Raise e s \<Rightarrow> Raise e s | Hang \<Rightarrow> Hang)"

text \<open>\<^verbatim>\<open>try: ... except Exception: pass\<close> on a body that returns the state.\<close>

definition swallow :: "state outcome \<Rightarrow> state outcome" where
  "swallow m = (case m of Ok s \<Rightarrow> Ok s | Raise e s \<Rightarrow> Ok s | Hang \<Rightarrow> Hang)"

definition emit :: "event \<Rightarrow> state \<Rightarrow> state" where
  "emit ev s = s\<lparr>trace := trace s @ [ev]\<rparr>"

definition errormsg :: "string \<Rightarrow> state \<Rightarrow> state" where
  "errormsg m s = emit (ErrMsg m) s"

definition time_sleep :: "real \<Rightarrow> state \<Rightarrow> state outcome" where
  "time_sleep d s = (if d < 0 then Raise ValueError s else Ok (emit (Slept d) s))"

subsection \<open>Python's string and number primitives\<close>

definition digit_char :: "nat \<Rightarrow> char" where
  "digit_char d = ''0123456789'' ! d"

function str_nat :: "nat \<Rightarrow> string" where
  "str_nat n = (if n < 10 then [digit_char n] else str_nat (n div 10) @ [digit_char (n mod 10)])"
  by pat_completeness auto
termination
  by (relation "measure id") auto

declare str_nat.simps [simp del]

definition str_int :: "int \<Rightarrow> string" where
  "str_int i = (if i < 0 then CHR ''-'' # str_nat (nat (- i)) else str_nat (nat i))"

text \<open>\<^verbatim>\<open>"%d" % x\<close> on a float truncates towards zero.\<close>

definition fmt_d :: "real \<Rightarrow> string" where
  "fmt_d x = str_int (if 0 \<le> x then \<lfloor>x\<rfloor> else \<lceil>x\<rceil>)"

subsection \<open>Device channel\<close>

definition faulty :: "bool list \<Rightarrow> bool" where
  "faulty fs = (case fs of True # _ \<Rightarrow> True | _ \<Rightarrow> False)"

definition sock_sendall :: "string \<Rightarrow> state \<Rightarrow> state outcome" where
  "sock_sendall bytes s =
     (let s1 = s\<lparr>send_faults := tl (send_faults s)\<rparr>
      in if faulty (send_faults s) \<or> sock s \<noteq> Opened then Raise OSError s1
         else Ok (emit (Sent bytes) s1))"

definition fil_write :: "string \<Rightarrow> state \<Rightarrow> state outcome" where
  "fil_write text s =
     (case fil s of
        Opened \<Rightarrow> Ok (emit (Wrote text) s)
      | Closed \<Rightarrow> Raise ValueError s
      | Absent \<Rightarrow> Raise AttributeError s)"

definition send_cmd :: "string \<Rightarrow> state \<Rightarrow> state outcome" where
  "send_cmd cmd s =
     obind
       (if LU s then
          (if connected s then
             (let cmd1 = cmd @ [CHR 0x0D, CHR 0x0A, CHR 0x00]
              in obind (sock_sendall cmd1 s) (\<lambda>s1. Ok (cmd1, s1)))
           else Ok (cmd, s))
        else Ok (cmd, s))
       (\<lambda>(cmd2, s2). if GF s2 then fil_write cmd2 s2 else Ok s2)"

text \<open>
  The receive loop of \<^verbatim>\<open>get_resp\<close>: \<open>tim\<close> and \<open>lin\<close> are its two variables. It returns
  them with the state, or raises, or blocks once nothing more arrives.
\<close>

fun recv_loop :: "recv_event list \<Rightarrow> nat \<Rightarrow> string \<Rightarrow> state \<Rightarrow> (nat \<times> string \<times> state) outcome" where
  "recv_loop [] tim lin s =
     (if tim < 1000 then Hang else Ok (tim, lin, s\<lparr>inbox := []\<rparr>))"
| "recv_loop (ev # rest) tim lin s =
     (if tim < 1000 then
        (case ev of
           RecvFails \<Rightarrow> Raise OSError (s\<lparr>inbox := rest\<rparr>)
         | Byte c \<Rightarrow>
             (if c \<noteq> CHR 0x00 then
                recv_loop rest (0 + 1) (lin @ [c]) (emit (Slept 0.01) s)
              else Ok (tim, lin, s\<lparr>inbox := rest\<rparr>)))
      else Ok (tim, lin, s\<lparr>inbox := ev # rest\<rparr>))"

text \<open>
  \<^verbatim>\<open>lin.decode('utf-8')\<close> raises \<^verbatim>\<open>UnicodeDecodeError\<close> unless the bytes are well-formed
  UTF-8 (no stray or missing continuation byte, no overlong form, no surrogate, nothing above
  U+10FFFF). The decoded text is represented by the bytes that encode it: it is empty when
  there is no byte, and its first character is \<open>o\<close> when its first byte is.
\<close>

definition utf8_cont :: "nat \<Rightarrow> bool" where
  "utf8_cont c = (128 \<le> c \<and> c \<le> 191)"

fun utf8_valid :: "nat list \<Rightarrow> bool" where
  "utf8_valid [] = True"
| "utf8_valid (b # bs) =
     (if b < 128 then utf8_valid bs
      else if 194 \<le> b \<and> b \<le> 223 then
        (case bs of c1 # r \<Rightarrow> utf8_cont c1 \<and> utf8_valid r | _ \<Rightarrow> False)
      else if 224 \<le> b \<and> b \<le> 239 then
        (case bs of
           c1 # c2 # r \<Rightarrow>
             utf8_cont c1 \<and> (b = 224 \<longrightarrow> 160 \<le> c1) \<and> (b = 237 \<longrightarrow> c1 \<le> 159)
             \<and> utf8_cont c2 \<and> utf8_valid r
         | _ \<Rightarrow> False)
      else if 240 \<le> b \<and> b \<le> 244 then
        (case bs of
           c1 # c2 # c3 # r \<Rightarrow>
             utf8_cont c1 \<and> (b = 240 \<longrightarrow> 144 \<le> c1) \<and> (b = 244 \<longrightarrow> c1 \<le> 143)
             \<and> utf8_cont c2 \<and> utf8_cont c3 \<and> utf8_valid r
         | _ \<Rightarrow> False)
      else False)"

definition decode_utf8 :: "string \<Rightarrow> state \<Rightarrow> (string option \<times> state) outcome" where
  "decode_utf8 lin s =
     (if utf8_valid (map of_char lin) then Ok (Some lin, s)
      else Raise UnicodeDecodeError s)"

definition get_resp :: "state \<Rightarrow> (string option \<times> state) outcome" where
  "get_resp s =
     (if \<not> connected s then Ok (None, s)
      else
        obind (recv_loop (inbox s) 0 [] s)
          (\<lambda>(tim, lin, s1).
             let lin1 = (if tim > 990 then ''Time_out'' else lin)
             in decode_utf8 lin1 s1))"

text \<open>\<^verbatim>\<open>str(response)\<close>\<close>

definition str_response :: "string option \<Rightarrow> string" where
  "str_response r = (case r of None \<Rightarrow> ''None'' | Some t \<Rightarrow> t)"

lemma obind_cong [fundef_cong]:
  "m = m' \<Longrightarrow> (\<And>x. m' = Ok x \<Longrightarrow> f x = f' x) \<Longrightarrow> obind m f = obind m' f'"
  by (simp add: obind_def split: outcome.splits)

lemma recv_loop_consumes:
  "recv_loop evs tim lin s = Ok (tim', lin', s') \<Longrightarrow> tim < 1000 \<Longrightarrow> length (inbox s') < length evs"
proof (induction evs arbitrary: tim lin s)
  case Nil
  then show ?case by simp
next
  case (Cons ev rest)
  show ?case
  proof (cases ev)
    case RecvFails
    with Cons.prems show ?thesis by simp
  next
    case (Byte c)
    show ?thesis
    proof (cases "c = CHR 0x00")
      case True
      with Byte Cons.prems show ?thesis by auto
    next
      case False
      with Byte Cons.prems
      have "recv_loop rest 1 (lin @ [c]) (emit (Slept 0.01) s) = Ok (tim', lin', s')"
        by simp
      from Cons.IH [OF this] show ?thesis by simp
    qed
  qed
qed

lemma get_resp_consumes:
  assumes "get_resp s = Ok (Some r, s')"
  shows "length (inbox s') < length (inbox s)"
proof -
  from assms have c: "connected s"
    by (auto simp: get_resp_def split: if_splits)
  with assms obtain tim lin s1 where
    l: "recv_loop (inbox s) 0 [] s = Ok (tim, lin, s1)" and
    d: "decode_utf8 (if tim > 990 then ''Time_out'' else lin) s1 = Ok (Some r, s')"
    by (auto simp: get_resp_def obind_def split: outcome.splits)
  from d have "s' = s1"
    by (auto simp: decode_utf8_def split: if_splits)
  with recv_loop_consumes [OF l] show ?thesis by simp
qed

text \<open>The loop \<^verbatim>\<open>while response == '': response = self.get_resp(); ...\<close> of \<^verbatim>\<open>do_command\<close>.\<close>

function resp_loop :: "string option \<Rightarrow> state \<Rightarrow> (string option \<times> state) outcome" where
  "resp_loop response s =
     (if response = Some [] then
        obind (get_resp s) (\<lambda>(r, s1). resp_loop r (errormsg (str_response r) s1))
      else Ok (response, s))"
  by pat_completeness auto
termination
proof (relation "measure (\<lambda>(r, s). if r = Some [] then Suc (length (inbox s)) else 0)")
  show "wf (measure (\<lambda>(r, s). if r = Some [] then Suc (length (inbox s)) else 0))"
    by simp
next
  fix response :: "string option" and s :: state and x :: "string option \<times> state" and r s1
  assume "response = Some []" and g: "get_resp s = Ok x" and x: "(r, s1) = x"
  show "((r, errormsg (str_response r) s1), response, s)
        \<in> measure (\<lambda>(r, s). if r = Some [] then Suc (length (inbox s)) else 0)"
  proof (cases "r = Some []")
    case True
    with g x have "get_resp s = Ok (Some [], s1)" by simp
    from get_resp_consumes [OF this] \<open>response = Some []\<close> True show ?thesis
      by (simp add: errormsg_def emit_def)
  next
    case False
    with \<open>response = Some []\<close> show ?thesis by simp
  qed
qed

declare resp_loop.simps [simp del]

text \<open>The body of the \<^verbatim>\<open>try\<close> of \<^verbatim>\<open>do_command\<close> on the network backend.\<close>

definition do_command_try :: "string \<Rightarrow> state \<Rightarrow> state outcome" where
  "do_command_try cmd s =
     obind (send_cmd cmd s) (\<lambda>s1.
     obind (resp_loop (Some []) s1) (\<lambda>(response, s2).
       case response of
         None \<Rightarrow> Raise TypeError s2
       | Some [] \<Rightarrow> Raise IndexError s2
       | Some (c # cs) \<Rightarrow>
           (if c \<noteq> CHR ''o'' then
              obind (time_sleep 0.5 (errormsg (c # cs) (errormsg cmd s2))) (\<lambda>s3.
              obind (send_cmd cmd s3) (\<lambda>s4.
              Ok (errormsg (''Repeated: '' @ cmd) s4)))
            else Ok s2)))"

definition do_command :: "string \<Rightarrow> state \<Rightarrow> state outcome" where
  "do_command cmd s =
     obind
       (if LU s then
          (let cmd1 = cmd @ [] in obind (swallow (do_command_try cmd1 s)) (\<lambda>s1. Ok (cmd1, s1)))
        else Ok (cmd, s))
       (\<lambda>(cmd2, s2).
          if GF s2 then swallow (send_cmd (cmd2 @ [CHR 0x0A]) s2) else Ok s2)"

subsection \<open>Motion encoder\<close>

definition pen_up :: "state \<Rightarrow> state outcome" where
  "pen_up s =
     (if \<not> pen_is_up s then
        (let s1 = s\<lparr>pen_is_up := True\<rparr>
         in if LU s1 then
              obind (do_command ''G01 Z1000'' s1) (\<lambda>s2. time_sleep (penDelay (opts s2)) s2)
            else Ok s1)
      else Ok s)"

definition pen_down :: "state \<Rightarrow> state outcome" where
  "pen_down s =
     (if pen_is_up s then
        (let s1 = s\<lparr>pen_is_up := False\<rparr>
         in if LU s1 then
              obind (do_command ''G01 Z0'' s1) (\<lambda>s2. time_sleep (penDelay (opts s2)) s2)
            else Ok s1)
      else Ok s)"

definition distance :: "real \<Rightarrow> real \<Rightarrow> real" where
  "distance x y = sqrt (x * x + y * y)"

text \<open>
  The \<^verbatim>\<open>while\<close> loop of \<^verbatim>\<open>plot_line\<close>. \<^verbatim>\<open>strOutput\<close> is unbound when neither backend
  is selected, and \<^verbatim>\<open>','.join([x])\<close> is \<open>x\<close>.
\<close>

function plot_line_loop :: "real \<Rightarrow> real \<Rightarrow> state \<Rightarrow> state outcome" where
  "plot_line_loop n_delta_x n_delta_y s =
     (if \<bar>n_delta_x\<bar> > 0 \<or> \<bar>n_delta_y\<bar> > 0 then
        (let xd = n_delta_x; yd = n_delta_y;
             xt = svg_total_delta_X s; yt = - svg_total_delta_Y s;
             strOutput0 =
               (if LU s then
                  (if xt * yt \<noteq> 0 then Some (''G01 X'' @ fmt_d xt @ '' Y'' @ fmt_d yt)
                   else Some ''G01 Z1000'')
                else None)
         in obind
              (if GF s then
                 (if \<not> pen_is_up s then
                    Ok (Some (''G01 X'' @ fmt_d xt @ '' Y'' @ fmt_d yt @ '' Z0''), s)
                  else
                    obind (do_command (''G01 X'' @ fmt_d xt @ '' Y'' @ fmt_d yt @ '' Z1000'') s)
                      (\<lambda>s1. Ok (Some (''G01 X'' @ fmt_d xt @ '' Y'' @ fmt_d yt @ '' Z0''), s1)))
               else Ok (strOutput0, s))
              (\<lambda>(strOutput, s2).
                 case strOutput of
                   None \<Rightarrow> Raise UnboundLocalError s2
                 | Some c \<Rightarrow>
                     obind (do_command c s2) (\<lambda>s3.
                       plot_line_loop (n_delta_x - xd) (n_delta_y - yd)
                         (s3\<lparr>svg_total_delta_X := svg_total_delta_X s3 + xd,
                             svg_total_delta_Y := svg_total_delta_Y s3 + yd\<rparr>))))
      else Ok s)"
  by pat_completeness auto
termination
  by (relation "measure (\<lambda>(dx, dy, s). if dx \<noteq> 0 \<or> dy \<noteq> 0 then 1 else 0)") auto

declare plot_line_loop.simps [simp del]

definition plot_line :: "state \<Rightarrow> state outcome" where
  "plot_line s =
     (case fPrevX s of
        None \<Rightarrow> Ok s
      | Some px \<Rightarrow>
          (case (fX s, fY s, fPrevY s) of
             (Some x, Some y, Some py) \<Rightarrow>
               (let n_delta_x = x - px; n_delta_y = y - py
                in if distance n_delta_x n_delta_y > 0 then
                     plot_line_loop n_delta_x n_delta_y (s\<lparr>node_count := node_count s + 1\<rparr>)
                   else Ok s)
           | _ \<Rightarrow> Raise TypeError s))"

subsection \<open>Layer selection\<close>

text \<open>
  \<^verbatim>\<open>str.isdigit\<close> and the whitespace of \<^verbatim>\<open>str.lstrip()\<close> on code points below 256: the
  ten ASCII digits and the superscripts 1, 2, 3 are digits; the superscripts are not accepted
  by \<^verbatim>\<open>float\<close>.
\<close>

definition ascii_digit :: "char \<Rightarrow> bool" where
  "ascii_digit c = (48 \<le> (of_char c :: nat) \<and> (of_char c :: nat) \<le> 57)"

definition isdigit_char :: "char \<Rightarrow> bool" where
  "isdigit_char c = (ascii_digit c \<or> c = CHR 0xB2 \<or> c = CHR 0xB3 \<or> c = CHR 0xB9)"

definition str_isdigit :: "string \<Rightarrow> bool" where
  "str_isdigit t = (t \<noteq> [] \<and> list_all isdigit_char t)"

definition isspace_char :: "char \<Rightarrow> bool" where
  "isspace_char c =
     ((9 \<le> (of_char c :: nat) \<and> (of_char c :: nat) \<le> 13)
      \<or> (28 \<le> (of_char c :: nat) \<and> (of_char c :: nat) \<le> 32)
      \<or> c = CHR 0x85 \<or> c = CHR 0xA0)"

definition lstrip :: "string \<Rightarrow> string" where
  "lstrip t = dropWhile isspace_char t"

text \<open>The value of a string of ASCII digits.\<close>

definition digits_value :: "string \<Rightarrow> nat" where
  "digits_value t = foldl (\<lambda>acc c. 10 * acc + (of_char c - 48)) 0 t"

function bit_length :: "nat \<Rightarrow> nat" where
  "bit_length n = (if n = 0 then 0 else Suc (bit_length (n div 2)))"
  by pat_completeness auto
termination
  by (relation "measure id") auto

declare bit_length.simps [simp del]

text \<open>
  \<^verbatim>\<open>float\<close> of a natural number: the nearest number with a 53-bit significand, ties to
  the even significand; \<open>None\<close> is infinity.
\<close>

definition float_of_nat :: "nat \<Rightarrow> nat option" where
  "float_of_nat n =
     (if n < 2 ^ 53 then Some n
      else
        (let e = bit_length n - 53; q = n div 2 ^ e; r = n mod 2 ^ e; h = 2 ^ (e - 1);
             q1 = (if h < r \<or> (r = h \<and> odd q) then q + 1 else q)
         in if q1 * 2 ^ e < 2 ^ 1024 then Some (q1 * 2 ^ e) else None))"

text \<open>\<^verbatim>\<open>int(float(t))\<close> for a string \<open>t\<close> that \<^verbatim>\<open>str.isdigit\<close> accepts.\<close>

definition int_float :: "string \<Rightarrow> error + int" where
  "int_float t =
     (if list_all ascii_digit t then
        (case float_of_nat (digits_value t) of
           None \<Rightarrow> Inl OverflowError
         | Some v \<Rightarrow> Inr (int v))
      else Inl ValueError)"

text \<open>The \<^verbatim>\<open>while\<close> loop of \<^verbatim>\<open>do_we_plot_layer\<close>, on \<^verbatim>\<open>temp_num_string\<close> and \<^verbatim>\<open>string_pos\<close>.\<close>

function layer_scan :: "string \<Rightarrow> nat \<Rightarrow> string \<Rightarrow> nat \<Rightarrow> string" where
  "layer_scan current_layer_name MaxLength temp_num_string string_pos =
     (if string_pos \<le> MaxLength then
        (if str_isdigit (take string_pos current_layer_name) then
           layer_scan current_layer_name MaxLength
             (take string_pos current_layer_name) (string_pos + 1)
         else temp_num_string)
      else temp_num_string)"
  by pat_completeness auto
termination
  by (relation "measure (\<lambda>(n, m, t, p). Suc m - p)") auto

declare layer_scan.simps [simp del]

definition do_we_plot_layer :: "string option \<Rightarrow> state \<Rightarrow> state outcome" where
  "do_we_plot_layer strLayerName s =
     (case strLayerName of
        None \<Rightarrow> Raise AttributeError s
      | Some name \<Rightarrow>
          (let current_layer_name = lstrip name;
               MaxLength = length current_layer_name;
               temp_num_string =
                 (if MaxLength > 0 then layer_scan current_layer_name MaxLength ''x'' 1
                  else ''x'');
               s1 = s\<lparr>plot_current_layer := False\<rparr>
           in if str_isdigit temp_num_string then
                (case int_float temp_num_string of
                   Inl e \<Rightarrow> Raise e s1
                 | Inr v \<Rightarrow>
                     (if svg_layer s1 = v then
                        Ok (s1\<lparr>plot_current_layer := True,
                               layers_plotted := layers_plotted s1 + 1\<rparr>)
                      else Ok s1))
              else Ok s1))"

subsection \<open>Strings, attributes and tags\<close>

definition rstrip :: "string \<Rightarrow> string" where
  "rstrip t = rev (dropWhile isspace_char (rev t))"

definition py_strip :: "string \<Rightarrow> string" where
  "py_strip t = lstrip (rstrip t)"

text \<open>\<^verbatim>\<open>str.split()\<close>: the maximal runs of characters that are not whitespace.\<close>

fun split_ws :: "string \<Rightarrow> string \<Rightarrow> string list" where
  "split_ws cur [] = (if cur = [] then [] else [cur])"
| "split_ws cur (c # cs) =
     (if isspace_char c then (if cur = [] then split_ws [] cs else cur # split_ws [] cs)
      else split_ws (cur @ [c]) cs)"

definition py_split :: "string \<Rightarrow> string list" where
  "py_split t = split_ws [] t"

text \<open>\<^verbatim>\<open>str.split(sep)\<close> for a separator of one character.\<close>

fun split_on :: "char \<Rightarrow> string \<Rightarrow> string \<Rightarrow> string list" where
  "split_on sep cur [] = [cur]"
| "split_on sep cur (c # cs) =
     (if c = sep then cur # split_on sep [] cs else split_on sep (cur @ [c]) cs)"

text \<open>The truth value of \<^verbatim>\<open>node.get(key)\<close> in \<^verbatim>\<open>if value:\<close>.\<close>

definition truthy :: "string option \<Rightarrow> bool" where
  "truthy v = (case v of None \<Rightarrow> False | Some t \<Rightarrow> t \<noteq> [])"

definition node_get :: "node \<Rightarrow> string \<Rightarrow> string option" where
  "node_get n key = map_of (attrib n) key"

definition node_get_default :: "node \<Rightarrow> string \<Rightarrow> string \<Rightarrow> string" where
  "node_get_default n key dflt = (case node_get n key of None \<Rightarrow> dflt | Some v \<Rightarrow> v)"

text \<open>\<^verbatim>\<open>inkex.addNS(tag, ns)\<close> with the namespace table of inkex, for a plain tag.\<close>

definition NSS :: "string \<Rightarrow> string" where
  "NSS ns =
     (if ns = ''svg'' then ''http://www.w3.org/2000/svg''
      else if ns = ''inkscape'' then ''http://www.inkscape.org/namespaces/inkscape''
      else if ns = ''sodipodi'' then ''http://sodipodi.sourceforge.net/DTD/sodipodi-0.dtd''
      else if ns = ''xlink'' then ''http://www.w3.org/1999/xlink''
      else ns)"

definition addNS :: "string \<Rightarrow> string \<Rightarrow> string" where
  "addNS t ns = ''{'' @ NSS ns @ ''}'' @ t"

text \<open>\<^verbatim>\<open>node.tag == inkex.addNS(t, ns) or node.tag == t\<close>\<close>

definition tag_is :: "node \<Rightarrow> string \<Rightarrow> string \<Rightarrow> bool" where
  "tag_is n t ns = (tag n = Tag (addNS t ns) \<or> tag n = Tag t)"

subsection \<open>What Python and inkex provide\<close>

type_synonym point = "real \<times> real"
type_synonym csp = "point \<times> point \<times> point"
type_synonym bez = "point \<times> point \<times> point \<times> point"

text \<open>
  The functions of Python's and inkex's libraries that the program calls are parameters of the
  model: number parsing and formatting, transforms, the path parser, the bezier helpers and
  the XPath search of the document.
\<close>

record lib =
  lib_float :: "string \<Rightarrow> real option"        \<comment> \<open>\<^verbatim>\<open>float(text)\<close>, \<open>None\<close> for \<^verbatim>\<open>ValueError\<close>\<close>
  lib_fmt_f :: "real \<Rightarrow> string"               \<comment> \<open>\<^verbatim>\<open>'%f' % x\<close>\<close>
  lib_str :: "real \<Rightarrow> string"                 \<comment> \<open>\<^verbatim>\<open>str(x)\<close> of a number\<close>
  Transform_str :: "string option \<Rightarrow> transform option"
                                             \<comment> \<open>\<^verbatim>\<open>Transform(text)\<close>, \<open>None\<close> when it raises\<close>
  Transform_matmul :: "transform \<Rightarrow> transform \<Rightarrow> transform"
                                             \<comment> \<open>\<^verbatim>\<open>a @ b\<close> of two \<^verbatim>\<open>Transform\<close> objects\<close>
  Path_len :: "string option \<Rightarrow> nat"           \<comment> \<open>\<^verbatim>\<open>len(Path(d).to_arrays())\<close>\<close>
  CubicSuperPath :: "string option \<Rightarrow> csp list list"
  Path_transform :: "transform \<Rightarrow> csp list list \<Rightarrow> csp list list"
                                             \<comment> \<open>\<^verbatim>\<open>Path(p).transform(Transform(m)).to_arrays()\<close>\<close>
  bezier_maxdist :: "bez \<Rightarrow> real"
  bezier_beziersplitatt :: "bez \<Rightarrow> real \<Rightarrow> bez \<times> bez"
  xpath :: "string \<Rightarrow> node list"              \<comment> \<open>\<^verbatim>\<open>node.xpath(expression)\<close>\<close>
  shlex_split :: "string \<Rightarrow> string list option"

definition py_float :: "lib \<Rightarrow> string option \<Rightarrow> state \<Rightarrow> real outcome" where
  "py_float L v s =
     (case v of
        None \<Rightarrow> Raise TypeError s
      | Some t \<Rightarrow> (case lib_float L t of None \<Rightarrow> Raise ValueError s | Some x \<Rightarrow> Ok x))"

text \<open>
  \<^verbatim>\<open>compose_transform(mat1, mat2)\<close> and \<^verbatim>\<open>parse_transform(transf)\<close>: both wrap their
  arguments in \<^verbatim>\<open>Transform\<close> and return the rows of the result as plain lists.
\<close>

definition compose_transform :: "lib \<Rightarrow> matrix \<Rightarrow> matrix \<Rightarrow> matrix" where
  "compose_transform L mat1 mat2 = PlainList (Transform_matmul L (rows mat1) (rows mat2))"

definition parse_transform :: "lib \<Rightarrow> string \<Rightarrow> matrix option" where
  "parse_transform L transf = map_option PlainList (Transform_str L (Some transf))"

subsection \<open>Geometry flattener\<close>

text \<open>
  \<^verbatim>\<open>subdivide_cubic_path(sp, flat, i)\<close>, called with \<open>i = 1\<close>. The slice assignment
  \<^verbatim>\<open>sp[i:1] = [p]\<close> inserts \<open>p\<close> at index \<open>i\<close>. The loop need not end: \<open>None\<close>.
\<close>

partial_function (option) subdivide_cubic_path :: "lib \<Rightarrow> csp list \<Rightarrow> real \<Rightarrow> nat \<Rightarrow> csp list option" where
  "subdivide_cubic_path L sp flat i =
     (if i \<ge> length sp then Some sp
      else
        (let p0 = fst (snd (sp ! (i - 1)));
             p1 = snd (snd (sp ! (i - 1)));
             p2 = fst (sp ! i);
             p3 = fst (snd (sp ! i));
             b = (p0, p1, p2, p3)
         in if bezier_maxdist L b > flat then
              (let (one, two) = bezier_beziersplitatt L b 0.5;
                   sp1 = sp[i - 1 := (fst (sp ! (i - 1)), fst (snd (sp ! (i - 1))), fst (snd one))];
                   sp2 = sp1[i := (fst (snd (snd two)), fst (snd (sp1 ! i)), snd (snd (sp1 ! i)))];
                   p = (fst (snd (snd one)), snd (snd (snd one)), fst (snd two))
               in subdivide_cubic_path L (take i sp2 @ [p] @ drop i sp2) flat i)
            else subdivide_cubic_path L sp flat (i + 1)))"

text \<open>The loop \<^verbatim>\<open>for csp in sp\<close> of \<^verbatim>\<open>plot_path\<close>, with its counter \<^verbatim>\<open>nIndex\<close>.\<close>

fun plot_points :: "csp list \<Rightarrow> nat \<Rightarrow> state \<Rightarrow> state outcome" where
  "plot_points [] nIndex s = Ok s"
| "plot_points (csp # rest) nIndex s =
     (let s1 = s\<lparr>fX := Some (fst (fst (snd csp))), fY := Some (snd (fst (snd csp)))\<rparr>;
          s2 = (if ptFirst s1 = None then
                  s1\<lparr>fPrevX := Some 0, fPrevY := svg_height s1,
                     ptFirst := Some (Some 0, svg_height s1)\<rparr>
                else s1)
      in obind
           (if plot_current_layer s2 then
              obind (plot_line s2) (\<lambda>s3. Ok (s3\<lparr>fPrevX := fX s3, fPrevY := fY s3\<rparr>))
            else Ok s2)
           (\<lambda>s4. obind
              (if plot_current_layer s4 then
                 (if nIndex = 0 then pen_up s4 else if nIndex = 1 then pen_down s4 else Ok s4)
               else Ok s4)
              (\<lambda>s5. plot_points rest (nIndex + 1) s5)))"

text \<open>The loop \<^verbatim>\<open>for sp in p\<close> of \<^verbatim>\<open>plot_path\<close>.\<close>

fun plot_subpaths :: "lib \<Rightarrow> csp list list \<Rightarrow> state \<Rightarrow> state outcome" where
  "plot_subpaths L [] s = Ok s"
| "plot_subpaths L (sp # rest) s =
     (case subdivide_cubic_path L sp (smoothness (opts s)) 1 of
        None \<Rightarrow> Hang
      | Some sp1 \<Rightarrow> obind (plot_points sp1 0 s) (\<lambda>s1. plot_subpaths L rest s1))"

text \<open>
  \<^verbatim>\<open>plot_path(path, matTransform)\<close>, on the \<^verbatim>\<open>d\<close> attribute of \<^verbatim>\<open>path\<close>. The statement
  \<^verbatim>\<open>Path(p).transform(Transform(matTransform)).to_arrays()\<close> builds a new path from \<open>p\<close>,
  transforms the new path and drops the result: \<open>p\<close> itself is what the loop then walks.
\<close>

definition plot_path :: "lib \<Rightarrow> string option \<Rightarrow> matrix \<Rightarrow> state \<Rightarrow> state outcome" where
  "plot_path L d matTransform s =
     (if Path_len L d = 0 then Ok s
      else
        (let p = CubicSuperPath L d;
             dropped = Path_transform L (rows matTransform) p
         in plot_subpaths L p s))"


subsection \<open>Shape normalizer\<close>

text \<open>
  \<^verbatim>\<open>self.warnings.has_key(key)\<close>: \<^verbatim>\<open>self.warnings\<close> is a \<^verbatim>\<open>dict\<close>, and a \<^verbatim>\<open>dict\<close> of
  Python 3 (the Python of inkex 1.x, and of this file, which uses f-strings) has no attribute
  \<^verbatim>\<open>has_key\<close>: evaluating the expression raises \<^verbatim>\<open>AttributeError\<close>.
\<close>

definition warnings_has_key :: "string \<Rightarrow> state \<Rightarrow> bool outcome" where
  "warnings_has_key key s = Raise AttributeError s"

definition after_path :: "state \<Rightarrow> state outcome" where
  "after_path s = Ok (s\<lparr>svg_last_path := svg_last_path s + 1, svg_last_path_NC := node_count s\<rparr>)"

definition visit_path :: "lib \<Rightarrow> node \<Rightarrow> matrix \<Rightarrow> state \<Rightarrow> state outcome" where
  "visit_path L node matNew s =
     obind (plot_path L (node_get node ''d'') matNew (s\<lparr>path_count := path_count s + 1\<rparr>))
       after_path"

text \<open>
  In the branch for rectangles \<^verbatim>\<open>newpath.apply_transform(t)\<close> is called when the node has
  a transform attribute; the method of inkex takes no argument, so the call raises
  \<^verbatim>\<open>TypeError\<close>.
\<close>

definition visit_rect :: "lib \<Rightarrow> node \<Rightarrow> matrix \<Rightarrow> state \<Rightarrow> state outcome" where
  "visit_rect L node matNew s =
     obind (py_float L (node_get node ''x'') s) (\<lambda>x.
     obind (py_float L (node_get node ''y'') s) (\<lambda>y.
     obind (py_float L (node_get node ''width'') s) (\<lambda>w.
     obind (py_float L (node_get node ''height'') s) (\<lambda>h.
     obind
       (case node_get node ''transform'' of
          None \<Rightarrow> Ok s
        | Some t \<Rightarrow>
            (if t \<noteq> [] then Raise TypeError s else Ok s))
       (\<lambda>s1.
          let a = ''M '' @ lib_str L x @ '' '' @ lib_str L y
                @ '' l '' @ lib_str L w @ '' 0''
                @ '' l 0 '' @ lib_str L h
                @ '' l '' @ lib_str L (- w) @ '' 0''
                @ '' Z''
          in plot_path L (Some a) matNew s1)))))"

definition visit_line :: "lib \<Rightarrow> node \<Rightarrow> matrix \<Rightarrow> state \<Rightarrow> state outcome" where
  "visit_line L node matNew s =
     (let s1 = s\<lparr>path_count := path_count s + 1\<rparr>
      in obind (py_float L (node_get node ''x1'') s1) (\<lambda>x1.
         obind (py_float L (node_get node ''y1'') s1) (\<lambda>y1.
         obind (py_float L (node_get node ''x2'') s1) (\<lambda>x2.
         obind (py_float L (node_get node ''y2'') s1) (\<lambda>y2.
           let a = ''M '' @ lib_str L x1 @ '' '' @ lib_str L y1
                 @ '' L '' @ lib_str L x2 @ '' '' @ lib_str L y2
           in obind (plot_path L (Some a) matNew s1) after_path)))))"

text \<open>
  \<^verbatim>\<open>d = "M " + pa[0]\<close> and the loop that appends \<^verbatim>\<open>" L " + pa[i]\<close>; \<^verbatim>\<open>pa[0]\<close> raises
  \<^verbatim>\<open>IndexError\<close> on the empty list.
\<close>

definition points_path :: "string list \<Rightarrow> state \<Rightarrow> string outcome" where
  "points_path pa s =
     (case pa of
        [] \<Rightarrow> Raise IndexError s
      | p0 # ps \<Rightarrow> Ok (''M '' @ p0 @ concat (map (\<lambda>p. '' L '' @ p) ps)))"

text \<open>
  In the two branches below \<^verbatim>\<open>if pl == '': pass\<close> and \<^verbatim>\<open>if not len(pa): pass\<close> do
  nothing, and control goes on to the next statement. Here and for lines, circles and
  ellipses, \<^verbatim>\<open>newpath.set('transform', t)\<close> sets an attribute of the new element that
  nothing reads: \<^verbatim>\<open>plot_path\<close> reads \<^verbatim>\<open>d\<close> only, and the node's transform is already
  part of \<^verbatim>\<open>matNew\<close>.
\<close>

definition visit_polyline :: "lib \<Rightarrow> node \<Rightarrow> matrix \<Rightarrow> state \<Rightarrow> state outcome" where
  "visit_polyline L node matNew s =
     (let pl = py_strip (node_get_default node ''points'' []);
          s1 = s\<lparr>path_count := path_count s + 1\<rparr>;
          pa = py_split pl
      in obind (points_path pa s1) (\<lambda>d.
         obind (plot_path L (Some d) matNew s1) after_path))"

definition visit_polygon :: "lib \<Rightarrow> node \<Rightarrow> matrix \<Rightarrow> state \<Rightarrow> state outcome" where
  "visit_polygon L node matNew s =
     (let pl = py_strip (node_get_default node ''points'' []);
          s1 = s\<lparr>path_count := path_count s + 1\<rparr>;
          pa = py_split pl
      in obind (points_path pa s1) (\<lambda>d.
         obind (plot_path L (Some (d @ '' Z'')) matNew s1) after_path))"

text \<open>
  The path of a circle or an ellipse. \<^verbatim>\<open>if rx == 0 or ry == 0: pass\<close> does nothing, and
  control goes on to the next statement.
\<close>

definition ellipse_path :: "lib \<Rightarrow> real \<Rightarrow> real \<Rightarrow> real \<Rightarrow> real \<Rightarrow> string" where
  "ellipse_path L cx cy rx ry =
     (let x1 = cx - rx; x2 = cx + rx
      in ''M '' @ lib_fmt_f L x1 @ '','' @ lib_fmt_f L cy @ '' ''
         @ ''A '' @ lib_fmt_f L rx @ '','' @ lib_fmt_f L ry @ '' ''
         @ ''0 1 0 '' @ lib_fmt_f L x2 @ '','' @ lib_fmt_f L cy @ '' ''
         @ ''A '' @ lib_fmt_f L rx @ '','' @ lib_fmt_f L ry @ '' ''
         @ ''0 1 0 '' @ lib_fmt_f L x1 @ '','' @ lib_fmt_f L cy)"

definition visit_ellipse :: "lib \<Rightarrow> node \<Rightarrow> matrix \<Rightarrow> state \<Rightarrow> state outcome" where
  "visit_ellipse L node matNew s =
     obind
       (if tag_is node ''ellipse'' ''svg'' then
          obind (py_float L (Some (node_get_default node ''rx'' ''0'')) s) (\<lambda>rx.
          obind (py_float L (Some (node_get_default node ''ry'' ''0'')) s) (\<lambda>ry. Ok (rx, ry)))
        else
          obind (py_float L (Some (node_get_default node ''r'' ''0'')) s) (\<lambda>rx. Ok (rx, rx)))
       (\<lambda>(rx, ry).
          let s1 = s\<lparr>path_count := path_count s + 1\<rparr>
          in obind (py_float L (Some (node_get_default node ''cx'' ''0'')) s1) (\<lambda>cx.
             obind (py_float L (Some (node_get_default node ''cy'' ''0'')) s1) (\<lambda>cy.
             obind (plot_path L (Some (ellipse_path L cx cy rx ry)) matNew s1) after_path)))"

definition visit_text :: "state \<Rightarrow> state outcome" where
  "visit_text s =
     obind (warnings_has_key ''text'' s) (\<lambda>known.
       if \<not> known then
         Ok ((errormsg (''Warning: unable to draw text; ''
                @ ''please convert it to a path first.  Consider using the ''
                @ ''Hershey Text extension which is located under the ''
                @ [CHR 0x22] @ ''Render'' @ [CHR 0x22] @ '' category of extensions.'') s)
              \<lparr>warnings := ''text'' # warnings s\<rparr>)
       else Ok s)"

definition visit_image :: "state \<Rightarrow> state outcome" where
  "visit_image s =
     obind (warnings_has_key ''image'' s) (\<lambda>known.
       if \<not> known then
         Ok ((errormsg (''Warning: unable to draw bitmap images; ''
                @ ''please convert them to line art first.  Consider using the ''
                @ [CHR 0x22] @ ''Trace bitmap...'' @ [CHR 0x22] @ '' ''
                @ ''tool of the '' @ [CHR 0x22] @ ''Path'' @ [CHR 0x22]
                @ '' menu.  Mac users please note that some X11 settings may ''
                @ ''cause cut-and-paste operations to paste in bitmap copies.'') s)
              \<lparr>warnings := ''image'' # warnings s\<rparr>)
       else Ok s)"

text \<open>The last branch: a tag that is a string and that no earlier branch knows.\<close>

definition visit_other :: "string \<Rightarrow> state \<Rightarrow> state outcome" where
  "visit_other name s =
     obind (warnings_has_key name s) (\<lambda>known.
       if \<not> known then
         Ok ((errormsg (''Warning: unable to draw <'' @ last (split_on (CHR ''}'') [] name)
                @ ''> object, please convert it to a path first.'') s)
              \<lparr>warnings := name # warnings s\<rparr>)
       else Ok s)"

text \<open>
  The branches of \<^verbatim>\<open>recursively_traverse_svg\<close> from \<^verbatim>\<open>path\<close> on, in the order of the
  source; the two branches before them, for groups and for \<^verbatim>\<open>use\<close>, recurse.
\<close>

definition visit_leaf :: "lib \<Rightarrow> node \<Rightarrow> matrix \<Rightarrow> state \<Rightarrow> state outcome" where
  "visit_leaf L node matNew s =
     (if tag node = Tag (addNS ''path'' ''svg'') then visit_path L node matNew s
      else if tag_is node ''rect'' ''svg'' then visit_rect L node matNew s
      else if tag_is node ''line'' ''svg'' then visit_line L node matNew s
      else if tag_is node ''polyline'' ''svg'' then visit_polyline L node matNew s
      else if tag_is node ''polygon'' ''svg'' then visit_polygon L node matNew s
      else if tag_is node ''ellipse'' ''svg'' \<or> tag_is node ''circle'' ''svg'' then
        visit_ellipse L node matNew s
      else if tag_is node ''metadata'' ''svg'' then Ok s
      else if tag_is node ''defs'' ''svg'' then Ok s
      else if tag_is node ''namedview'' ''sodipodi'' then Ok s
      else if tag_is node ''lus'' ''svg'' then Ok s
      else if tag_is node ''title'' ''svg'' then Ok s
      else if tag_is node ''desc'' ''svg'' then Ok s
      else if tag_is node ''text'' ''svg'' then visit_text s
      else if tag_is node ''image'' ''svg'' then visit_image s
      else if tag_is node ''pattern'' ''svg'' then Ok s
      else if tag_is node ''radialGradient'' ''svg'' then Ok s
      else if tag_is node ''linearGradient'' ''svg'' then Ok s
      else if tag_is node ''style'' ''svg'' then Ok s
      else if tag_is node ''cursor'' ''svg'' then Ok s
      else if tag_is node ''color-profile'' ''svg'' then Ok s
      else (case tag node of NonStr \<Rightarrow> Ok s | Tag name \<Rightarrow> visit_other name s))"

subsection \<open>Scene traverser\<close>

text \<open>
  \<^verbatim>\<open>recursively_traverse_svg(aNodeList, matCurrent, parent_visibility)\<close>. Iterating over an
  element gives its children, so the list of nodes is passed. The first argument bounds the
  depth of the recursion, as the interpreter's recursion limit does: nothing else stops a
  \<^verbatim>\<open>use\<close> that refers to one of its ancestors. In
  \<^verbatim>\<open>matCurrent @ inkex.transforms.Transform(node.get("transform"))\<close> the right operand is
  built first, and \<^verbatim>\<open>@\<close> then raises \<^verbatim>\<open>TypeError\<close> when \<^verbatim>\<open>matCurrent\<close> is a plain list.
\<close>

fun recursively_traverse_svg ::
  "lib \<Rightarrow> nat \<Rightarrow> node list \<Rightarrow> matrix \<Rightarrow> string \<Rightarrow> state \<Rightarrow> state outcome" where
  "recursively_traverse_svg L 0 aNodeList matCurrent parent_visibility s = Raise RecursionError s"
| "recursively_traverse_svg L (Suc depth) [] matCurrent parent_visibility s = Ok s"
| "recursively_traverse_svg L (Suc depth) (node # rest) matCurrent parent_visibility s =
     (let v0 = node_get_default node ''visibility'' parent_visibility;
          v = (if v0 = ''inherit'' then parent_visibility else v0)
      in case Transform_str L (node_get node ''transform'') of
           None \<Rightarrow> Raise ValueError s
         | Some t \<Rightarrow>
             (case matCurrent of
                PlainList mc \<Rightarrow> Raise TypeError s
              | TransformObject mc \<Rightarrow>
                  (let matNew = TransformObject (Transform_matmul L mc t)
                   in obind
                        (if tag_is node ''g'' ''svg'' then
                           obind
                             (if node_get node (addNS ''groupmode'' ''inkscape'') = Some ''layer''
                                 \<and> \<not> all_layers s
                              then do_we_plot_layer (node_get node (addNS ''label'' ''inkscape'')) s
                              else Ok s)
                             (\<lambda>s1. recursively_traverse_svg L depth (children node) matNew v s1)
                         else if tag_is node ''use'' ''svg'' then
                           (let refid = node_get node (addNS ''href'' ''xlink'')
                            in if truthy refid then
                                 (let path = ''//*[@id='' @ [CHR 0x22] @ tl (the refid) @ [CHR 0x22] @ '']'';
                                      refnode = xpath L path
                                  in if refnode \<noteq> [] then
                                       obind (py_float L (Some (node_get_default node ''x'' ''0'')) s) (\<lambda>x.
                                       obind (py_float L (Some (node_get_default node ''y'' ''0'')) s) (\<lambda>y.
                                       obind
                                         (if x \<noteq> 0 \<or> y \<noteq> 0 then
                                            (case parse_transform L
                                                    (''translate('' @ lib_fmt_f L x @ '','' @ lib_fmt_f L y @ '')'') of
                                               None \<Rightarrow> Raise ValueError s
                                             | Some t2 \<Rightarrow> Ok (compose_transform L matNew t2))
                                          else Ok matNew)
                                         (\<lambda>matNew2.
                                            recursively_traverse_svg L depth refnode matNew2
                                              (node_get_default node ''visibility'' v) s)))
                                     else Ok s)
                               else Ok s)
                         else visit_leaf L node matNew s)
                        (\<lambda>s'. recursively_traverse_svg L (Suc depth) rest matCurrent parent_visibility s'))))"

subsection \<open>Progress state\<close>

text \<open>
  \<^verbatim>\<open>int(text)\<close>: surrounding whitespace, an optional sign, and decimal digits that single
  underscores may separate.
\<close>

fun no_double_underscore :: "string \<Rightarrow> bool" where
  "no_double_underscore (a # b # cs) =
     (\<not> (a = CHR ''_'' \<and> b = CHR ''_'') \<and> no_double_underscore (b # cs))"
| "no_double_underscore cs = True"

definition valid_int_body :: "string \<Rightarrow> bool" where
  "valid_int_body body =
     (body \<noteq> [] \<and> ascii_digit (hd body) \<and> ascii_digit (last body)
      \<and> list_all (\<lambda>c. ascii_digit c \<or> c = CHR ''_'') body \<and> no_double_underscore body)"

definition py_int :: "string \<Rightarrow> int option" where
  "py_int t =
     (let u = py_strip t;
          neg = (u \<noteq> [] \<and> hd u = CHR ''-'');
          body = (if u \<noteq> [] \<and> (hd u = CHR ''-'' \<or> hd u = CHR ''+'') then tl u else u)
      in if valid_int_body body then
           Some ((if neg then - 1 else 1) * int (digits_value (filter (\<lambda>c. c \<noteq> CHR ''_'') body)))
         else None)"

text \<open>\<^verbatim>\<open>int(node.get(key))\<close>: \<^verbatim>\<open>int(None)\<close> raises \<^verbatim>\<open>TypeError\<close>.\<close>

definition int_attr :: "node \<Rightarrow> string \<Rightarrow> state \<Rightarrow> int outcome" where
  "int_attr node key s =
     (case node_get node key of
        None \<Rightarrow> Raise TypeError s
      | Some t \<Rightarrow> (case py_int t of None \<Rightarrow> Raise ValueError s | Some i \<Rightarrow> Ok i))"

text \<open>\<^verbatim>\<open>node.set(key, value)\<close>\<close>

definition node_set :: "string \<Rightarrow> string \<Rightarrow> node \<Rightarrow> node" where
  "node_set key v n =
     Node (tag n)
       (if key \<in> fst ` set (attrib n)
        then map (\<lambda>(k, old). if k = key then (k, v) else (k, old)) (attrib n)
        else attrib n @ [(key, v)])
       (children n)"

text \<open>The body of the \<^verbatim>\<open>try\<close> of \<^verbatim>\<open>recursive_lus_data_scan\<close>.\<close>

definition read_marker_try :: "node \<Rightarrow> state \<Rightarrow> state outcome" where
  "read_marker_try node s =
     obind (int_attr node ''lastpath'' s) (\<lambda>a.
       let s1 = s\<lparr>svg_last_path := a\<rparr>
       in obind (int_attr node ''lastpathnc'' s1) (\<lambda>b.
            let s2 = s1\<lparr>svg_last_path_NC := b\<rparr>
            in obind (int_attr node ''totaldeltax'' s2) (\<lambda>c.
                 let s3 = s2\<lparr>svg_total_delta_X := of_int c\<rparr>
                 in obind (int_attr node ''totaldeltay'' s3) (\<lambda>d.
                      Ok (s3\<lparr>svg_total_delta_Y := of_int d, svg_data_read := True\<rparr>)))))"

text \<open>The branch of \<^verbatim>\<open>recursive_lus_data_scan\<close> for a marker element.\<close>

definition read_marker :: "node \<Rightarrow> state \<Rightarrow> (node \<times> state) outcome" where
  "read_marker node s =
     obind (int_attr node ''layer'' s) (\<lambda>l.
       let s1 = s\<lparr>svg_layer := l\<rparr>
       in obind (int_attr node ''node'' s1) (\<lambda>n.
            let s2 = s1\<lparr>svg_node_count := n\<rparr>
            in case read_marker_try node s2 of
                 Ok s3 \<Rightarrow> Ok (node, s3)
               | Raise e s3 \<Rightarrow>
                   (if e = ValueError then
                      Ok (node_set ''totaldeltay'' (str_int 0)
                           (node_set ''totaldeltax'' (str_int 0)
                             (node_set ''lastpathnc'' (str_int 0)
                               (node_set ''lastpath'' (str_int 0) node))),
                          s3\<lparr>svg_data_read := True\<rparr>)
                    else Raise e s3)
               | Hang \<Rightarrow> Hang))"

text \<open>
  \<^verbatim>\<open>recursive_lus_data_scan(aNodeList)\<close> on an element, and its loop over the children.
  The element comes back with what \<^verbatim>\<open>node.set\<close> changed, and \<^verbatim>\<open>check_svg_for_lus_data\<close>
  stores it in \<open>svg\<close> when the scan returns; when the scan raises, the job ends and the
  document is not written.
\<close>

fun recursive_lus_data_scan :: "node \<Rightarrow> state \<Rightarrow> (node \<times> state) outcome"
  and lus_scan_loop :: "node list \<Rightarrow> state \<Rightarrow> (node list \<times> state) outcome" where
  "recursive_lus_data_scan (Node t a cs) s =
     (if \<not> svg_data_read s then
        obind (lus_scan_loop cs s) (\<lambda>(cs1, s1). Ok (Node t a cs1, s1))
      else Ok (Node t a cs, s))"
| "lus_scan_loop [] s = Ok ([], s)"
| "lus_scan_loop (node # rest) s =
     obind
       (if tag node = Tag ''svg'' then recursive_lus_data_scan node s
        else if tag node = Tag (addNS ''botbot'' ''svg'') \<or> tag node = Tag ''lus'' then
          read_marker node s
        else Ok (node, s))
       (\<lambda>(node1, s1). obind (lus_scan_loop rest s1) (\<lambda>(rest1, s2). Ok (node1 # rest1, s2)))"

definition new_lus_marker :: node where
  "new_lus_marker =
     node_set ''totaldeltay'' (str_int 0)
       (node_set ''totaldeltax'' (str_int 0)
         (node_set ''lastpathnc'' (str_int 0)
           (node_set ''lastpath'' (str_int 0)
             (node_set ''node'' (str_int 0)
               (node_set ''layer'' (str_int 0) (Node (Tag ''lus'') [] []))))))"

definition check_svg_for_lus_data :: "state \<Rightarrow> state outcome" where
  "check_svg_for_lus_data s =
     obind (recursive_lus_data_scan (svg s) (s\<lparr>svg_data_read := False\<rparr>)) (\<lambda>(root, s1).
       let s2 = s1\<lparr>svg := root\<rparr>
       in if \<not> svg_data_read s2 then
            Ok (s2\<lparr>svg := Node (tag root) (attrib root) (children root @ [new_lus_marker])\<rparr>)
          else Ok s2)"

subsection \<open>The plot job\<close>

text \<open>\<^verbatim>\<open>parse_length_with_units(lwu)\<close>; \<open>None\<close> is the pair \<^verbatim>\<open>(None, None)\<close>.\<close>

definition parse_length_with_units :: "lib \<Rightarrow> string \<Rightarrow> (real \<times> string) option" where
  "parse_length_with_units L lwu =
     (let s0 = py_strip lwu;
          (u, s1) =
            (if drop (length s0 - 2) s0 = ''px'' then (''px'', take (length s0 - 2) s0)
             else if drop (length s0 - 1) s0 = ''%'' then (''%'', take (length s0 - 1) s0)
             else (''px'', s0))
      in case lib_float L s1 of None \<Rightarrow> None | Some v \<Rightarrow> Some (v, u))"

definition get_length :: "lib \<Rightarrow> string \<Rightarrow> real \<Rightarrow> state \<Rightarrow> real option" where
  "get_length L name dflt s =
     (let str = node_get (svg s) name
      in if truthy str then
           (case parse_length_with_units L (the str) of
              None \<Rightarrow> None
            | Some (v, u) \<Rightarrow>
                (if v = 0 then None
                 else if u = [] \<or> u = ''px'' then Some v
                 else if u = ''%'' then Some (dflt * v / 100)
                 else None))
         else Some dflt)"

definition get_doc_properties :: "lib \<Rightarrow> state \<Rightarrow> bool \<times> state" where
  "get_doc_properties L s =
     (let s1 = s\<lparr>svg_height := get_length L ''height'' 2000 s\<rparr>;
          s2 = s1\<lparr>svg_width := get_length L ''width'' 2000 s1\<rparr>
      in if svg_height s2 = None \<or> svg_width s2 = None then (False, s2) else (True, s2))"

text \<open>\<^verbatim>\<open>float(vinfo[i])\<close>: the index may be out of range.\<close>

definition float_at :: "lib \<Rightarrow> string list \<Rightarrow> nat \<Rightarrow> state \<Rightarrow> real outcome" where
  "float_at L vinfo i s =
     (if i < length vinfo then py_float L (Some (vinfo ! i)) s else Raise IndexError s)"

text \<open>The viewBox handling of \<^verbatim>\<open>plot_to_lus\<close>.\<close>

definition apply_viewbox :: "lib \<Rightarrow> state \<Rightarrow> state outcome" where
  "apply_viewbox L s =
     (let viewbox = node_get (svg s) ''viewBox''
      in if truthy viewbox then
           (let vinfo = split_on (CHR '' '') []
                          (map (\<lambda>c. if c = CHR '','' then CHR '' '' else c) (py_strip (the viewbox)))
            in obind (float_at L vinfo 2 s) (\<lambda>v2.
                 if v2 \<noteq> 0 then
                   obind (float_at L vinfo 3 s) (\<lambda>v3.
                     if v3 \<noteq> 0 then
                       obind (float_at L vinfo 2 s) (\<lambda>w2.
                       obind (float_at L vinfo 3 s) (\<lambda>w3.
                       obind (float_at L vinfo 0 s) (\<lambda>w0.
                       obind (float_at L vinfo 1 s) (\<lambda>w1.
                         case (svg_width s, svg_height s) of
                           (Some w, Some h) \<Rightarrow>
                             (case Transform_str L
                                     (Some (''scale('' @ lib_fmt_f L (w / w2) @ '',''
                                            @ lib_fmt_f L (h / w3) @ '') translate(''
                                            @ lib_fmt_f L (- w0) @ '','' @ lib_fmt_f L (- w1) @ '')'')) of
                                None \<Rightarrow> Raise ValueError s
                              | Some t \<Rightarrow> Ok (s\<lparr>svg_transform := TransformObject t\<rparr>))
                         | _ \<Rightarrow> Raise TypeError s))))
                     else Ok s)
                 else Ok s))
         else Ok s)"

text \<open>The body of the \<^verbatim>\<open>try\<close> of \<^verbatim>\<open>plot_to_lus\<close>; its \<^verbatim>\<open>finally\<close> clause is \<^verbatim>\<open>pass\<close>.\<close>

definition plot_to_lus_try :: "lib \<Rightarrow> nat \<Rightarrow> state \<Rightarrow> state outcome" where
  "plot_to_lus_try L depth s =
     obind (recursively_traverse_svg L depth (children (svg s)) (svg_transform s) ''visible'' s) (\<lambda>s1.
     obind
       (case ptFirst s1 of
          None \<Rightarrow> Ok s1
        | Some (x, y) \<Rightarrow>
            obind (plot_line (s1\<lparr>fX := x, fY := y, node_count := node_target s1\<rparr>)) (\<lambda>s2.
            obind (pen_up s2) (\<lambda>s3.
            do_command ''G01 X1000 Y1000'' s3)))
       (\<lambda>s4. Ok (s4\<lparr>svg_layer := 0, svg_last_path := 0, svg_last_path_NC := 0,
                     svg_total_delta_X := 0, svg_total_delta_Y := 0\<rparr>)))"

definition plot_to_lus :: "lib \<Rightarrow> nat \<Rightarrow> state \<Rightarrow> state outcome" where
  "plot_to_lus L depth s =
     (case get_doc_properties L s of
        (False, s1) \<Rightarrow>
          Ok (errormsg (''The document to be plotted has invalid dimensions. ''
                @ ''The dimensions must be unitless, or have units of pixels (px) or ''
                @ ''percentages (%). Document dimensions may be set in Inkscape using ''
                @ ''File > Document Properties'') s1)
      | (True, s1) \<Rightarrow> obind (apply_viewbox L s1) (plot_to_lus_try L depth))"

subsection \<open>Manual commands\<close>

text \<open>
  The loop of \<^verbatim>\<open>get_hello_info\<close> that fills the dictionary \<^verbatim>\<open>hello\<close>: a later field
  overrides an earlier one, and a field without a colon raises \<^verbatim>\<open>IndexError\<close> (\<open>None\<close>).
\<close>

fun hello_fields :: "string list \<Rightarrow> (string \<times> string) list \<Rightarrow> (string \<times> string) list option" where
  "hello_fields [] hello = Some hello"
| "hello_fields (field # rest) hello =
     (if CHR '':'' \<in> set field then
        hello_fields rest
          ((takeWhile (\<lambda>c. c \<noteq> CHR '':'') field, tl (dropWhile (\<lambda>c. c \<noteq> CHR '':'') field)) # hello)
      else None)"

definition get_hello_info :: "lib \<Rightarrow> state \<Rightarrow> (string option \<times> state) outcome" where
  "get_hello_info L s =
     (if connected s then
        obind (sock_sendall [] s) (\<lambda>s1.
        obind (get_resp s1) (\<lambda>(r, s2).
          case r of
            None \<Rightarrow> Raise TypeError s2
          | Some resp \<Rightarrow>
              (case shlex_split L resp of
                 None \<Rightarrow> Raise ValueError s2
               | Some [] \<Rightarrow> Raise IndexError s2
               | Some (w # flds) \<Rightarrow>
                   (if w \<noteq> ''hello'' then Ok (None, s2)
                    else
                      (case hello_fields flds [] of
                         None \<Rightarrow> Raise IndexError s2
                       | Some hello \<Rightarrow>
                           (case (map_of hello ''VERSION'', map_of hello ''SERIAL'') of
                              (Some v, Some sn) \<Rightarrow>
                                Ok (Some (''Version: '' @ v @ [CHR 0x0A] @ ''Serial: '' @ sn @ ''.''), s2)
                            | _ \<Rightarrow> Raise KeyError s2))))))
      else Ok (Some ''Not connected'', s))"

text \<open>
  \<^verbatim>\<open>manual_command\<close>. The condition \<^verbatim>\<open>manualType == "walk_X_motor" or "walk_Y_motor"\<close> of the
  last branch is always true.
\<close>

definition manual_command :: "lib \<Rightarrow> state \<Rightarrow> state outcome" where
  "manual_command L s =
     (let mt = manualType (opts s)
      in if mt = ''none'' then Ok s
         else if mt = ''raise_pen'' then pen_up s
         else if mt = ''lower_pen'' then pen_down s
         else if mt = ''version_check'' then
           obind (get_hello_info L s) (\<lambda>(version_info, s1). Ok (errormsg (str_response version_info) s1))
         else if mt = ''walk_X_motor'' then
           do_command (''G01 X'' @ str_int (WalkDistance (opts s)) @ '' Y'' @ str_int 0) s
         else if mt = ''walk_Y_motor'' then
           do_command (''G01 X'' @ str_int 0 @ '' Y'' @ str_int (WalkDistance (opts s))) s
         else Ok s)"

subsection \<open>The entry point\<close>

text \<open>
  \<^verbatim>\<open>update_svg_lus_data(aNodeList)\<close> on an element, and its loop over the children. Whenever
  it runs the two totals are Python integers (read by \<^verbatim>\<open>int\<close> from the marker, or reset to
  \<open>0\<close> at the end of \<^verbatim>\<open>plot_to_lus\<close>), so \<^verbatim>\<open>str\<close> writes them without a decimal point.
\<close>

definition write_marker :: "node \<Rightarrow> state \<Rightarrow> node \<times> state" where
  "write_marker node s =
     (node_set ''totaldeltay'' (str_int \<lfloor>svg_total_delta_Y s\<rfloor>)
        (node_set ''totaldeltax'' (str_int \<lfloor>svg_total_delta_X s\<rfloor>)
          (node_set ''lastpathnc'' (str_int (svg_last_path_NC s))
            (node_set ''lastpath'' (str_int (svg_last_path s))
              (node_set ''node'' (str_int (svg_node_count s))
                (node_set ''layer'' (str_int (svg_layer s)) node))))),
      s\<lparr>svg_data_read := True\<rparr>)"

fun update_svg_lus_data :: "node \<Rightarrow> state \<Rightarrow> node \<times> state"
  and update_loop :: "node list \<Rightarrow> state \<Rightarrow> node list \<times> state" where
  "update_svg_lus_data (Node t a cs) s =
     (if \<not> svg_data_read s then
        (case update_loop cs s of (cs1, s1) \<Rightarrow> (Node t a cs1, s1))
      else (Node t a cs, s))"
| "update_loop [] s = ([], s)"
| "update_loop (node # rest) s =
     (case (if tag node = Tag ''svg'' then update_svg_lus_data node s
            else if tag node = Tag (addNS ''lus'' ''svg'') \<or> tag node = Tag ''lus'' then
              write_marker node s
            else (node, s)) of
        (node1, s1) \<Rightarrow> (case update_loop rest s1 of (rest1, s2) \<Rightarrow> (node1 # rest1, s2)))"

definition connect :: "state \<Rightarrow> state outcome" where
  "connect s =
     (case connect_env s of
        Connects \<Rightarrow> Ok ((errormsg ''Connected'' s)\<lparr>connected := True\<rparr>)
      | Refused \<Rightarrow> Ok ((errormsg ''Not connected'' s)\<lparr>connected := False\<rparr>)
      | Unreachable \<Rightarrow> Raise OSError s)"

definition sock_close :: "state \<Rightarrow> state" where
  "sock_close s = emit SockClose (s\<lparr>sock := Closed\<rparr>)"

text \<open>Closing the file, by \<^verbatim>\<open>close()\<close> or on leaving \<^verbatim>\<open>with\<close>; closing it again does nothing.\<close>

definition fil_close :: "state \<Rightarrow> state" where
  "fil_close s = (if fil s = Opened then emit FileClose (s\<lparr>fil := Closed\<rparr>) else s)"

text \<open>
  \<^verbatim>\<open>with open(Gcode_file, 'w') as self.fil: body\<close>: the file is closed when the body
  returns and when it raises.
\<close>

definition with_open :: "(state \<Rightarrow> state outcome) \<Rightarrow> state \<Rightarrow> state outcome" where
  "with_open body s =
     (if \<not> open_env s then Raise OSError s
      else
        (case body (s\<lparr>fil := Opened\<rparr>) of
           Ok s1 \<Rightarrow> Ok (fil_close s1)
         | Raise e s1 \<Rightarrow> Raise e (fil_close s1)
         | Hang \<Rightarrow> Hang))"

text \<open>The branch of \<^verbatim>\<open>effect\<close> for the active tab.\<close>

definition effect_tab :: "lib \<Rightarrow> nat \<Rightarrow> state \<Rightarrow> state outcome" where
  "effect_tab L depth s =
     (if tab (opts s) = ''splash'' then
        obind (connect (s\<lparr>LU := True, sock := Opened\<rparr>)) (\<lambda>s1.
          plot_to_lus L depth
            (s1\<lparr>all_layers := True, plot_current_layer := True, svg_node_count := 0,
               svg_last_path := 0, svg_layer := 12345\<rparr>))
      else if tab (opts s) = ''manual'' then
        obind (connect (s\<lparr>LU := True, sock := Opened\<rparr>)) (manual_command L)
      else if tab (opts s) = ''layers'' then
        obind (connect (s\<lparr>LU := True, sock := Opened\<rparr>)) (\<lambda>s1.
        obind
          (plot_to_lus L depth
             (s1\<lparr>all_layers := False, plot_current_layer := False, layers_plotted := 0,
                svg_last_path := 0, svg_node_count := 0,
                svg_layer := layernumber (opts s1)\<rparr>))
          (\<lambda>s2. if layers_plotted s2 = 0
                then Ok (errormsg ''Did not find any numbered layers to plot.'' s2)
                else Ok s2))
      else if tab (opts s) = ''gcode'' then
        with_open
          (\<lambda>s1. obind (fil_write (''G54 X0 Y0 S1'' @ [CHR 0x0A]) s1) (\<lambda>s2.
             plot_to_lus L depth
               (s2\<lparr>all_layers := True, plot_current_layer := True, svg_node_count := 0,
                  svg_last_path := 0, svg_layer := 12345\<rparr>)))
          (s\<lparr>GF := True\<rparr>)
      else Ok s)"

text \<open>\<^verbatim>\<open>effect\<close>, on the document it is given.\<close>

definition effect :: "lib \<Rightarrow> nat \<Rightarrow> node \<Rightarrow> state \<Rightarrow> state outcome" where
  "effect L depth document s =
     obind (check_svg_for_lus_data (s\<lparr>svg := document\<rparr>)) (\<lambda>s1.
     obind (effect_tab L depth s1) (\<lambda>s2.
       let s3 = s2\<lparr>svg_data_read := False\<rparr>;
           (root, s4) = update_svg_lus_data (svg s3) s3;
           s5 = s4\<lparr>svg := root\<rparr>;
           s6 = (if LU s5 then sock_close s5 else s5);
           s7 = (if GF s6 then fil_close s6 else s6)
       in Ok (s7\<lparr>LU := False, GF := False\<rparr>)))"

subsection \<open>The object as \<^verbatim>\<open>__init__\<close> leaves it\<close>

text \<open>
  \<^verbatim>\<open>all_layers\<close>, \<^verbatim>\<open>plot_current_layer\<close>, \<^verbatim>\<open>connected\<close> and \<^verbatim>\<open>svg\<close> are not assigned
  by \<^verbatim>\<open>__init__\<close>; \<^verbatim>\<open>effect\<close> assigns them before they are read.
\<close>

definition default_options :: options where
  "default_options =
     \<lparr>smoothness = 0.1, penDelay = 0, tab = ''controls'', layernumber = 1,
      manualType = ''controls'', WalkDistance = 10\<rparr>"

definition init_state :: "options \<Rightarrow> recv_event list \<Rightarrow> bool list \<Rightarrow> state" where
  "init_state os incoming faults =
     \<lparr>pen_is_up = True, fX = None, fY = None, fPrevX = None, fPrevY = None, ptFirst = None,
      node_count = 0, node_target = 0, path_count = 0, layers_plotted = 0,
      svg_layer = 0, svg_node_count = 0, svg_data_read = False,
      svg_last_path = 0, svg_last_path_NC = 0,
      svg_total_delta_X = 0, svg_total_delta_Y = 0,
      svg_width = Some 2000, svg_height = Some 2000,
      svg_transform = PlainList ((1, 0, 0), (0, 1, 0)),
      warnings = [], LU = False, GF = False,
      all_layers = False, plot_current_layer = False, connected = False,
      opts = os, svg = Node (Tag ''svg'') [] [], sock = Absent, fil = Absent,
      inbox = incoming, send_faults = faults, connect_env = Connects, open_env = True,
      trace = []\<rparr>"

text \<open>Two states in the middle of a job, on the file backend and on the network backend.\<close>

definition file_job_state :: state where
  "file_job_state =
     (init_state default_options [] [])
       \<lparr>GF := True, fil := Opened, pen_is_up := False,
        fPrevX := Some 0, fPrevY := Some 0, fX := Some 3, fY := Some 4,
        svg_total_delta_X := 30, svg_total_delta_Y := 40\<rparr>"

definition net_job_state :: state where
  "net_job_state =
     (init_state default_options (map Byte ''error'' @ [Byte (CHR 0x00)]) [])
       \<lparr>LU := True, connected := True, sock := Opened, pen_is_up := True,
        fPrevX := Some 0, fPrevY := Some 0, fX := Some 3, fY := Some 4,
        svg_total_delta_X := 30, svg_total_delta_Y := 0\<rparr>"



text \<open>
  A library that answers as Python and inkex do on the strings and paths of the examples
  below, a document and a progress-state marker for the examples, and the states in which
  the examples start.
\<close>

definition affine_mul :: "transform \<Rightarrow> transform \<Rightarrow> transform" where
  "affine_mul m1 m2 =
     (case (m1, m2) of
        (((a, c, e), (b, d, f)), ((a', c', e'), (b', d', f'))) \<Rightarrow>
          ((a * a' + c * b', a * c' + c * d', a * e' + c * f' + e),
           (b * a' + d * b', b * c' + d * d', b * e' + d * f' + f)))"

definition affine_apply :: "transform \<Rightarrow> point \<Rightarrow> point" where
  "affine_apply m p =
     (case (m, p) of (((a, c, e), (b, d, f)), (x, y)) \<Rightarrow> (a * x + c * y + e, b * x + d * y + f))"

definition midpoint :: "point \<Rightarrow> point \<Rightarrow> point" where
  "midpoint p q = ((fst p + fst q) / 2, (snd p + snd q) / 2)"

definition example_lib :: lib where
  "example_lib =
     \<lparr>lib_float = map_of [(''0'', 0), (''10'', 10), (''100'', 100)],
      lib_fmt_f = (\<lambda>x. fmt_d x @ ''.000000''),
      lib_str = (\<lambda>x. fmt_d x @ ''.0''),
      Transform_str =
        (\<lambda>t. if t = None then Some ((1, 0, 0), (0, 1, 0))
             else if t = Some ''translate(5,5)'' then Some ((1, 0, 5), (0, 1, 5))
             else if t = Some ''scale(1.000000,1.000000) translate(-10.000000,-10.000000)''
             then Some ((1, 0, - 10), (0, 1, - 10))
             else None),
      Transform_matmul = affine_mul,
      Path_len =
        (\<lambda>d. case d of None \<Rightarrow> 0 | Some t \<Rightarrow> length (filter (\<lambda>c. c \<in> set ''MLAZ'') t)),
      CubicSuperPath =
        (\<lambda>d. if d = Some ''M 0 0 L 10 0''
             then [[((0, 0), (0, 0), (0, 0)), ((10, 0), (10, 0), (10, 0))]]
             else if d = Some (''M 10.000000,10.000000 A 0.000000,0.000000 ''
                     @ ''0 1 0 10.000000,10.000000 A 0.000000,0.000000 ''
                     @ ''0 1 0 10.000000,10.000000'')
             then [[((10, 10), (10, 10), (10, 10)), ((10, 10), (10, 10), (10, 10)),
                    ((10, 10), (10, 10), (10, 10))]]
             else []),
      Path_transform =
        (\<lambda>m. map (map (\<lambda>(p0, p1, p2). (affine_apply m p0, affine_apply m p1, affine_apply m p2)))),
      bezier_maxdist = (\<lambda>b. 0),
      bezier_beziersplitatt =
        (\<lambda>(p0, p1, p2, p3) t.
           let m1 = midpoint p0 p1; m2 = midpoint p1 p2; m3 = midpoint p2 p3;
               m4 = midpoint m1 m2; m5 = midpoint m2 m3; m = midpoint m4 m5
           in ((p0, m1, m4, m), (m, m5, m3, p3))),
      xpath = (\<lambda>e. []),
      shlex_split = (\<lambda>t. Some (py_split t))\<rparr>"

definition svg_node :: "string \<Rightarrow> (string \<times> string) list \<Rightarrow> node" where
  "svg_node name attrs = Node (Tag (addNS name ''svg'')) attrs []"

definition gcode_job_state :: state where
  "gcode_job_state =
     (init_state default_options [] [])
       \<lparr>GF := True, fil := Opened, all_layers := True, plot_current_layer := True,
        svg_layer := 12345\<rparr>"

text \<open>No progress-state marker where \<^verbatim>\<open>recursive_lus_data_scan\<close> looks for one.\<close>

fun marker_free_node :: "node \<Rightarrow> bool" and marker_free :: "node list \<Rightarrow> bool" where
  "marker_free_node (Node t a cs) =
     (t \<noteq> Tag (addNS ''botbot'' ''svg'') \<and> t \<noteq> Tag ''lus'' \<and> (t = Tag ''svg'' \<longrightarrow> marker_free cs))"
| "marker_free [] = True"
| "marker_free (n # ns) = (marker_free_node n \<and> marker_free ns)"

definition zeroed_marker :: "node \<Rightarrow> node" where
  "zeroed_marker m =
     node_set ''totaldeltay'' ''0''
       (node_set ''totaldeltax'' ''0''
         (node_set ''lastpathnc'' ''0''
           (node_set ''lastpath'' ''0'' m)))"

definition marker_example :: "string \<Rightarrow> string \<Rightarrow> node" where
  "marker_example layer_text lastpath_text =
     Node (Tag ''lus'')
       [(''layer'', layer_text), (''node'', ''3''), (''lastpath'', lastpath_text),
        (''lastpathnc'', ''4''), (''totaldeltax'', ''5''), (''totaldeltay'', ''6'')] []"

definition document_example :: "node list \<Rightarrow> node" where
  "document_example cs =
     Node (Tag (addNS ''svg'' ''svg''))
       [(''width'', ''100''), (''height'', ''100''), (''viewBox'', ''10 10 100 100'')] cs"

definition document_without_viewbox :: "node list \<Rightarrow> node" where
  "document_without_viewbox cs =
     Node (Tag (addNS ''svg'' ''svg'')) [(''width'', ''100''), (''height'', ''100'')] cs"

definition fresh_state :: "node \<Rightarrow> state" where
  "fresh_state doc = (init_state default_options [] [])\<lparr>svg := doc\<rparr>"

definition job_options :: "string \<Rightarrow> options" where
  "job_options t = default_options\<lparr>tab := t\<rparr>"

definition empty_polyline_document :: node where
  "empty_polyline_document = document_example [svg_node ''polyline'' [(''points'', '' '')]]"

definition plain_polyline_document :: node where
  "plain_polyline_document = document_without_viewbox [svg_node ''polyline'' [(''points'', '' '')]]"

section \<open>Verified properties\<close>

subsection \<open>Device channel\<close>

lemma recv_loop_message:
  "CHR 0x00 \<notin> set r \<Longrightarrow> tim < 1000 \<Longrightarrow>
   recv_loop (map Byte r @ Byte (CHR 0x00) # rest) tim lin s =
     Ok (if r = [] then tim else 1, lin @ r,
         s\<lparr>inbox := rest, trace := trace s @ replicate (length r) (Slept 0.01)\<rparr>)"
proof (induction r arbitrary: tim lin s)
  case Nil
  then show ?case by simp
next
  case (Cons c r)
  then show ?case
    by (auto simp: emit_def replicate_append_same)
qed

lemma ascii_utf8_valid:
  "\<forall>b \<in> set bs. b < 128 \<Longrightarrow> utf8_valid bs"
  by (induction bs) simp_all

lemma get_resp_message:
  assumes "connected s" and "inbox s = map Byte r @ Byte (CHR 0x00) # rest"
    and "\<forall>c \<in> set r. c \<noteq> CHR 0x00 \<and> (of_char c :: nat) < 128"
  shows "get_resp s =
     Ok (Some r, s\<lparr>inbox := rest, trace := trace s @ replicate (length r) (Slept 0.01)\<rparr>)"
proof -
  from assms(3) have z: "CHR 0x00 \<notin> set r" by auto
  have "recv_loop (inbox s) 0 [] s =
     Ok (if r = [] then 0 else 1, r,
         s\<lparr>inbox := rest, trace := trace s @ replicate (length r) (Slept 0.01)\<rparr>)"
    using recv_loop_message [OF z, of 0 rest "[]" s] assms(2) by simp
  moreover have "utf8_valid (map of_char r)"
    using assms(3) by (intro ascii_utf8_valid) auto
  ultimately show ?thesis
    using assms(1) by (simp add: get_resp_def obind_def decode_utf8_def)
qed

lemma send_cmd_network:
  assumes "LU s" and "\<not> GF s" and "connected s" and "sock s = Opened"
  shows "send_cmd cmd s =
     (if faulty (send_faults s) then Raise OSError (s\<lparr>send_faults := tl (send_faults s)\<rparr>)
      else Ok (s\<lparr>send_faults := tl (send_faults s),
                trace := trace s @ [Sent (cmd @ [CHR 0x0D, CHR 0x0A, CHR 0x00])]\<rparr>))"
  using assms by (simp add: send_cmd_def sock_sendall_def obind_def emit_def Let_def)

text \<open>
  C4. On the network backend, when the response to a command is a non-empty ASCII string whose
  first character is not \<open>o\<close>, \<^verbatim>\<open>do_command\<close> reports it, sleeps 0.5 seconds, sends the
  identical frame a second time, and returns normally whether or not that second send raises:
  it reads no further response and sends nothing else.
\<close>

theorem do_command_retries_once:
  assumes "LU s" and "\<not> GF s" and "connected s" and "sock s = Opened"
    and "\<not> faulty (send_faults s)"
    and "inbox s = map Byte (c # cs) @ Byte (CHR 0x00) # rest"
    and "\<forall>b \<in> set (c # cs). b \<noteq> CHR 0x00 \<and> (of_char b :: nat) < 128"
    and "c \<noteq> CHR ''o''"
  shows "\<exists>s'. do_command cmd s = Ok s'
     \<and> trace s' = trace s
          @ [Sent (cmd @ [CHR 0x0D, CHR 0x0A, CHR 0x00])]
          @ replicate (length (c # cs)) (Slept 0.01)
          @ [ErrMsg (c # cs), ErrMsg cmd, ErrMsg (c # cs), Slept 0.5]
          @ (if faulty (tl (send_faults s)) then []
             else [Sent (cmd @ [CHR 0x0D, CHR 0x0A, CHR 0x00]), ErrMsg (''Repeated: '' @ cmd)])
     \<and> inbox s' = rest
     \<and> send_faults s' = tl (tl (send_faults s))"
proof -
  let ?frame = "cmd @ [CHR 0x0D, CHR 0x0A, CHR 0x00]"
  let ?s1 = "s\<lparr>send_faults := tl (send_faults s), trace := trace s @ [Sent ?frame]\<rparr>"
  have send1: "send_cmd cmd s = Ok ?s1"
    using assms(1-5) by (simp add: send_cmd_network)
  let ?s2 = "?s1\<lparr>inbox := rest, trace := trace ?s1 @ replicate (length (c # cs)) (Slept 0.01)\<rparr>"
  have g: "get_resp ?s1 = Ok (Some (c # cs), ?s2)"
    by (rule get_resp_message) (use assms in simp_all)
  let ?s3 = "errormsg (c # cs) ?s2"
  have loop: "resp_loop (Some []) ?s1 = Ok (Some (c # cs), ?s3)"
    by (subst resp_loop.simps, simp only: g obind_def, subst resp_loop.simps)
       (simp add: str_response_def)
  have body: "\<exists>s'. swallow (do_command_try cmd s) = Ok s'
     \<and> LU s' \<and> \<not> GF s'
     \<and> trace s' = trace s @ [Sent ?frame] @ replicate (length (c # cs)) (Slept 0.01)
          @ [ErrMsg (c # cs), ErrMsg cmd, ErrMsg (c # cs), Slept 0.5]
          @ (if faulty (tl (send_faults s)) then []
             else [Sent ?frame, ErrMsg (''Repeated: '' @ cmd)])
     \<and> inbox s' = rest
     \<and> send_faults s' = tl (tl (send_faults s))"
    unfolding do_command_try_def send1
    using assms(1-4,8)
    by (simp add: obind_def loop time_sleep_def send_cmd_network errormsg_def emit_def swallow_def)
  show ?thesis
    using assms(1) body
    by (auto simp: do_command_def obind_def Let_def)
qed

theorem do_command_retries_once_witness:
  "\<exists>s'. do_command ''G01 Z0'' net_job_state = Ok s'
     \<and> trace s' =
         [Sent (''G01 Z0'' @ [CHR 0x0D, CHR 0x0A, CHR 0x00]),
          Slept 0.01, Slept 0.01, Slept 0.01, Slept 0.01, Slept 0.01,
          ErrMsg ''error'', ErrMsg ''G01 Z0'', ErrMsg ''error'', Slept 0.5,
          Sent (''G01 Z0'' @ [CHR 0x0D, CHR 0x0A, CHR 0x00]), ErrMsg ''Repeated: G01 Z0'']
     \<and> inbox s' = []
     \<and> send_faults s' = []"
  using do_command_retries_once [of net_job_state "CHR ''e''" "''rror''" "[]" "''G01 Z0''"]
  by (simp add: net_job_state_def init_state_def faulty_def)

subsection \<open>Motion encoder\<close>

lemma plot_line_loop_once:
  assumes "dx \<noteq> 0 \<or> dy \<noteq> 0"
  shows "plot_line_loop dx dy s =
     (let xt = svg_total_delta_X s; yt = - svg_total_delta_Y s;
          move = ''G01 X'' @ fmt_d xt @ '' Y'' @ fmt_d yt
      in obind
           (if GF s then
              (if \<not> pen_is_up s then Ok (Some (move @ '' Z0''), s)
               else obind (do_command (move @ '' Z1000'') s) (\<lambda>s1. Ok (Some (move @ '' Z0''), s1)))
            else Ok (if LU s then (if xt * yt \<noteq> 0 then Some move else Some ''G01 Z1000'') else None, s))
           (\<lambda>(strOutput, s2).
              case strOutput of
                None \<Rightarrow> Raise UnboundLocalError s2
              | Some c \<Rightarrow>
                  obind (do_command c s2) (\<lambda>s3.
                    Ok (s3\<lparr>svg_total_delta_X := svg_total_delta_X s3 + dx,
                           svg_total_delta_Y := svg_total_delta_Y s3 + dy\<rparr>))))"
proof -
  have stop: "plot_line_loop 0 0 t = Ok t" for t
    by (subst plot_line_loop.simps) simp
  show ?thesis
    using assms by (subst plot_line_loop.simps) (simp add: Let_def stop cong: option.case_cong)
qed

text \<open>
  C3. On the network backend, when \<^verbatim>\<open>plot_line\<close> has a non-zero segment to plot and the product
  of the two cumulative totals is zero, the one instruction it hands to \<^verbatim>\<open>do_command\<close> is
  the pen lift \<^verbatim>\<open>G01 Z1000\<close>; the segment's delta is then added to the totals.
\<close>

theorem plot_line_pen_lift:
  assumes "LU s" and "\<not> GF s"
    and "fPrevX s = Some px" and "fPrevY s = Some py" and "fX s = Some x" and "fY s = Some y"
    and "x - px \<noteq> 0 \<or> y - py \<noteq> 0"
    and "svg_total_delta_X s * svg_total_delta_Y s = 0"
  shows "plot_line s =
     obind (do_command ''G01 Z1000'' (s\<lparr>node_count := node_count s + 1\<rparr>))
       (\<lambda>s'. Ok (s'\<lparr>svg_total_delta_X := svg_total_delta_X s' + (x - px),
                     svg_total_delta_Y := svg_total_delta_Y s' + (y - py)\<rparr>))"
proof -
  from assms(7) have "(x - px)\<^sup>2 + (y - py)\<^sup>2 > 0"
    by (simp add: sum_power2_gt_zero_iff)
  then have d: "distance (x - px) (y - py) > 0"
    by (simp add: distance_def power2_eq_square)
  show ?thesis
    using assms d
    by (auto simp: plot_line_def plot_line_loop_once Let_def obind_def)
qed

theorem plot_line_pen_lift_witness:
  "plot_line net_job_state =
     obind (do_command ''G01 Z1000'' (net_job_state\<lparr>node_count := 1\<rparr>))
       (\<lambda>s'. Ok (s'\<lparr>svg_total_delta_X := svg_total_delta_X s' + 3,
                     svg_total_delta_Y := svg_total_delta_Y s' + 4\<rparr>))"
  using plot_line_pen_lift [of net_job_state 0 0 3 4]
  by (simp add: net_job_state_def init_state_def)

lemma fmt_d_30: "fmt_d 30 = ''30''" "fmt_d (- 40) = ''-40''"
  by (simp_all add: fmt_d_def str_int_def str_nat.simps digit_char_def)

text \<open>
  C10. Every move command of \<^verbatim>\<open>plot_line\<close> is built from the cumulative totals of the state
  in which \<^verbatim>\<open>plot_line\<close> is entered, the Y total negated, and the segment's delta is added
  to the totals only after the command has been handed to \<^verbatim>\<open>do_command\<close>.
\<close>

theorem plot_line_sends_totals_before_segment:
  assumes "fPrevX s = Some px" and "fPrevY s = Some py" and "fX s = Some x" and "fY s = Some y"
    and "x - px \<noteq> 0 \<or> y - py \<noteq> 0"
    and "move = ''G01 X'' @ fmt_d (svg_total_delta_X s) @ '' Y'' @ fmt_d (- svg_total_delta_Y s)"
    and "s0 = s\<lparr>node_count := node_count s + 1\<rparr>"
    and "add = (\<lambda>s'. Ok (s'\<lparr>svg_total_delta_X := svg_total_delta_X s' + (x - px),
                              svg_total_delta_Y := svg_total_delta_Y s' + (y - py)\<rparr>))"
  shows "(GF s \<and> \<not> pen_is_up s \<longrightarrow> plot_line s = obind (do_command (move @ '' Z0'') s0) add)
     \<and> (GF s \<and> pen_is_up s \<longrightarrow>
          plot_line s = obind (do_command (move @ '' Z1000'') s0)
                          (\<lambda>s1. obind (do_command (move @ '' Z0'') s1) add))
     \<and> (LU s \<and> \<not> GF s \<and> svg_total_delta_X s * svg_total_delta_Y s \<noteq> 0 \<longrightarrow>
          plot_line s = obind (do_command move s0) add)"
proof -
  from assms(5) have "(x - px)\<^sup>2 + (y - py)\<^sup>2 > 0"
    by (simp add: sum_power2_gt_zero_iff)
  then have d: "distance (x - px) (y - py) > 0"
    by (simp add: distance_def power2_eq_square)
  show ?thesis
    using assms d
    by (auto simp: plot_line_def plot_line_loop_once Let_def obind_def split: outcome.splits)
qed

theorem plot_line_sends_totals_before_segment_witness:
  "plot_line file_job_state =
     Ok (file_job_state\<lparr>node_count := 1, svg_total_delta_X := 33, svg_total_delta_Y := 44,
           trace := [Wrote ''G01 X30 Y-40 Z0\<newline>'']\<rparr>)"
  using plot_line_sends_totals_before_segment
    [of file_job_state 0 0 3 4
        "''G01 X'' @ fmt_d (svg_total_delta_X file_job_state) @ '' Y''
           @ fmt_d (- svg_total_delta_Y file_job_state)"
        "file_job_state\<lparr>node_count := node_count file_job_state + 1\<rparr>"
        "\<lambda>s'. Ok (s'\<lparr>svg_total_delta_X := svg_total_delta_X s' + (3 - 0),
                         svg_total_delta_Y := svg_total_delta_Y s' + (4 - 0)\<rparr>)"]
  by (simp add: file_job_state_def init_state_def fmt_d_30 do_command_def send_cmd_def
      fil_write_def obind_def swallow_def emit_def)

subsection \<open>Layer selection\<close>










subsection \<open>Scene traverser, shape normalizer and flattener\<close>

lemma traverse_leaf:
  assumes "Transform_str L (node_get node ''transform'') = Some t"
    and "\<not> tag_is node ''g'' ''svg''" and "\<not> tag_is node ''use'' ''svg''"
  shows "recursively_traverse_svg L (Suc depth) (node # rest) (TransformObject m) pv s =
     obind (visit_leaf L node (TransformObject (Transform_matmul L m t)) s)
       (\<lambda>s'. recursively_traverse_svg L (Suc depth) rest (TransformObject m) pv s')"
  using assms by (simp add: Let_def)

lemma traverse_plain_list:
  assumes "Transform_str L (node_get node ''transform'') = Some t"
  shows "recursively_traverse_svg L (Suc depth) (node # rest) (PlainList m) pv s = Raise TypeError s"
  using assms by (simp add: Let_def)

lemma leaf_text:
  "tag node = Tag ''text'' \<or> tag node = Tag (addNS ''text'' ''svg'') \<Longrightarrow>
   \<not> tag_is node ''g'' ''svg'' \<and> \<not> tag_is node ''use'' ''svg''
   \<and> visit_leaf L node m s = visit_text s"
  by (auto simp: visit_leaf_def tag_is_def addNS_def NSS_def)

lemma leaf_image:
  "tag node = Tag ''image'' \<or> tag node = Tag (addNS ''image'' ''svg'') \<Longrightarrow>
   \<not> tag_is node ''g'' ''svg'' \<and> \<not> tag_is node ''use'' ''svg''
   \<and> visit_leaf L node m s = visit_image s"
  by (auto simp: visit_leaf_def tag_is_def addNS_def NSS_def)

lemma leaf_flowRoot:
  "tag node = Tag (addNS ''flowRoot'' ''svg'') \<Longrightarrow>
   \<not> tag_is node ''g'' ''svg'' \<and> \<not> tag_is node ''use'' ''svg''
   \<and> visit_leaf L node m s = visit_other (addNS ''flowRoot'' ''svg'') s"
  by (auto simp: visit_leaf_def tag_is_def addNS_def NSS_def)

lemma leaf_polyline:
  "tag_is node ''polyline'' ''svg'' \<Longrightarrow>
   \<not> tag_is node ''g'' ''svg'' \<and> \<not> tag_is node ''use'' ''svg''
   \<and> visit_leaf L node m s = visit_polyline L node m s"
  by (auto simp: visit_leaf_def tag_is_def addNS_def NSS_def)

lemma leaf_polygon:
  "tag_is node ''polygon'' ''svg'' \<Longrightarrow>
   \<not> tag_is node ''g'' ''svg'' \<and> \<not> tag_is node ''use'' ''svg''
   \<and> visit_leaf L node m s = visit_polygon L node m s"
  by (auto simp: visit_leaf_def tag_is_def addNS_def NSS_def)

lemma leaf_circle:
  "tag_is node ''circle'' ''svg'' \<Longrightarrow>
   \<not> tag_is node ''g'' ''svg'' \<and> \<not> tag_is node ''use'' ''svg''
   \<and> \<not> tag_is node ''ellipse'' ''svg''
   \<and> visit_leaf L node m s = visit_ellipse L node m s"
  by (auto simp: visit_leaf_def tag_is_def addNS_def NSS_def)

lemma leaf_ellipse:
  "tag_is node ''ellipse'' ''svg'' \<Longrightarrow>
   \<not> tag_is node ''g'' ''svg'' \<and> \<not> tag_is node ''use'' ''svg''
   \<and> visit_leaf L node m s = visit_ellipse L node m s"
  by (auto simp: visit_leaf_def tag_is_def addNS_def NSS_def)


lemma subdivide_flat:
  assumes "\<And>b. bezier_maxdist L b \<le> flat"
  shows "subdivide_cubic_path L sp flat i = Some sp"
proof (induction "length sp - i" arbitrary: i)
  case 0
  then show ?case by (subst subdivide_cubic_path.simps) simp
next
  case (Suc k)
  then have "length sp - (i + 1) = k" by simp
  from Suc.hyps(1) [OF this [symmetric]] show ?case
    using assms by (subst subdivide_cubic_path.simps) (simp add: Let_def not_less [symmetric])
qed

lemma fmt_d_0: "fmt_d 0 = ''0''" "fmt_d 10 = ''10''"
  by (simp_all add: fmt_d_def str_int_def str_nat.simps digit_char_def)

lemma file_command:
  "GF s \<Longrightarrow> \<not> LU s \<Longrightarrow> fil s = Opened \<Longrightarrow>
   do_command cmd s = Ok (s\<lparr>trace := trace s @ [Wrote (cmd @ [CHR 0x0A])]\<rparr>)"
  by (simp add: do_command_def send_cmd_def fil_write_def obind_def swallow_def emit_def)

lemma fmt_d_2000: "fmt_d 2000 = ''2000''"
  by (simp add: fmt_d_def str_int_def str_nat.simps digit_char_def)

text \<open>
  C1. \<^verbatim>\<open>plot_path\<close> does not apply the accumulated transform: whatever \<^verbatim>\<open>matTransform\<close> is,
  the points it walks and the commands it emits are those of the identity transform, that is,
  of the untransformed geometry. In the example the path from \<open>(0, 0)\<close> to \<open>(10, 0)\<close> under a
  translation by \<open>(5, 5)\<close> ends at \<open>(10, 0)\<close>, not at \<open>(15, 5)\<close>.
\<close>

theorem plot_path_drops_transform:
  "plot_path L d matTransform s = plot_path L d (TransformObject ((1, 0, 0), (0, 1, 0))) s
   \<and> plot_path example_lib (Some ''M 0 0 L 10 0'') (TransformObject ((1, 0, 5), (0, 1, 5)))
         gcode_job_state =
       Ok (gcode_job_state
            \<lparr>pen_is_up := False, fX := Some 10, fY := Some 0,
             fPrevX := Some 10, fPrevY := Some 0, ptFirst := Some (Some 0, Some 2000),
             node_count := 2, svg_total_delta_X := 10, svg_total_delta_Y := - 2000,
             trace := [Wrote ''G01 X0 Y0 Z1000\<newline>'', Wrote ''G01 X0 Y0 Z0\<newline>'',
                       Wrote ''G01 X0 Y2000 Z1000\<newline>'', Wrote ''G01 X0 Y2000 Z0\<newline>'']\<rparr>)"
proof
  show "plot_path L d matTransform s = plot_path L d (TransformObject ((1, 0, 0), (0, 1, 0))) s"
    by (simp add: plot_path_def Let_def)
next
  have sub: "0 \<le> flat \<Longrightarrow> subdivide_cubic_path example_lib sp flat i = Some sp" for sp flat i
    by (rule subdivide_flat) (simp add: example_lib_def)
  have len: "Path_len example_lib (Some ''M 0 0 L 10 0'') = 2"
    by (simp add: example_lib_def)
  have csp: "CubicSuperPath example_lib (Some ''M 0 0 L 10 0'') =
       [[((0, 0), (0, 0), (0, 0)), ((10, 0), (10, 0), (10, 0))]]"
    by (simp add: example_lib_def)
  have path: "plot_path example_lib (Some ''M 0 0 L 10 0'') m gcode_job_state =
     obind (plot_points [((0, 0), (0, 0), (0, 0)), ((10, 0), (10, 0), (10, 0))] 0 gcode_job_state) Ok" for m
    unfolding plot_path_def len csp Let_def
    by (simp add: sub gcode_job_state_def init_state_def default_options_def obind_def
        split: outcome.splits del: plot_points.simps)
  show "plot_path example_lib (Some ''M 0 0 L 10 0'') (TransformObject ((1, 0, 5), (0, 1, 5)))
         gcode_job_state =
       Ok (gcode_job_state
            \<lparr>pen_is_up := False, fX := Some 10, fY := Some 0,
             fPrevX := Some 10, fPrevY := Some 0, ptFirst := Some (Some 0, Some 2000),
             node_count := 2, svg_total_delta_X := 10, svg_total_delta_Y := - 2000,
             trace := [Wrote ''G01 X0 Y0 Z1000\<newline>'', Wrote ''G01 X0 Y0 Z0\<newline>'',
                       Wrote ''G01 X0 Y2000 Z1000\<newline>'', Wrote ''G01 X0 Y2000 Z0\<newline>'']\<rparr>)"
    unfolding path
    by (simp add: gcode_job_state_def init_state_def default_options_def
        Let_def obind_def plot_line_def distance_def plot_line_loop_once file_command
        pen_up_def pen_down_def fmt_d_0 fmt_d_2000)
qed

text \<open>
  C2. On a text node, an image node or an unrecognized element (here \<^verbatim>\<open>flowRoot\<close>), the
  traversal, entered with a \<^verbatim>\<open>Transform\<close> object, raises \<^verbatim>\<open>AttributeError\<close> in the state
  it had on reaching the node: no warning is recorded or shown, and the nodes after it are not
  visited.
\<close>

theorem unsupported_node_raises:
  assumes "Transform_str L (node_get node ''transform'') = Some t"
    and "tag node = Tag ''text'' \<or> tag node = Tag (addNS ''text'' ''svg'')
       \<or> tag node = Tag ''image'' \<or> tag node = Tag (addNS ''image'' ''svg'')
       \<or> tag node = Tag (addNS ''flowRoot'' ''svg'')"
  shows "recursively_traverse_svg L (Suc depth) (node # rest) (TransformObject m) pv s = Raise AttributeError s"
proof -
  have "\<not> tag_is node ''g'' ''svg'' \<and> \<not> tag_is node ''use'' ''svg''
      \<and> visit_leaf L node (TransformObject (Transform_matmul L m t)) s = Raise AttributeError s"
    using assms(2) leaf_text [of node L "TransformObject (Transform_matmul L m t)" s]
      leaf_image [of node L "TransformObject (Transform_matmul L m t)" s]
      leaf_flowRoot [of node L "TransformObject (Transform_matmul L m t)" s]
    by (auto simp: visit_text_def visit_image_def visit_other_def warnings_has_key_def obind_def)
  then show ?thesis
    using traverse_leaf [OF assms(1), of depth rest m pv s] by (simp add: obind_def)
qed

theorem unsupported_node_raises_witness:
  "recursively_traverse_svg example_lib 1
     [svg_node ''text'' [], svg_node ''text'' [], svg_node ''path'' [(''d'', ''M 0 0 L 10 0'')]]
     (TransformObject ((1, 0, 0), (0, 1, 0))) ''visible'' gcode_job_state
   = Raise AttributeError gcode_job_state"
  using unsupported_node_raises
    [of example_lib "svg_node ''text'' []" "((1, 0, 0), (0, 1, 0))" 0
        "[svg_node ''text'' [], svg_node ''path'' [(''d'', ''M 0 0 L 10 0'')]]"
        "((1, 0, 0), (0, 1, 0))" "''visible''" gcode_job_state]
  by (simp add: example_lib_def svg_node_def node_get_def)

lemma empty_points_traversal:
  assumes "Transform_str L (node_get node ''transform'') = Some t"
    and "tag_is node ''polyline'' ''svg'' \<or> tag_is node ''polygon'' ''svg''"
    and "py_split (py_strip (node_get_default node ''points'' [])) = []"
  shows "recursively_traverse_svg L (Suc depth) (node # rest) (TransformObject m) pv s =
     Raise IndexError (s\<lparr>path_count := path_count s + 1\<rparr>)"
proof -
  have "\<not> tag_is node ''g'' ''svg'' \<and> \<not> tag_is node ''use'' ''svg''
      \<and> visit_leaf L node (TransformObject (Transform_matmul L m t)) s =
          Raise IndexError (s\<lparr>path_count := path_count s + 1\<rparr>)"
    using assms(2,3) leaf_polyline [of node L "TransformObject (Transform_matmul L m t)" s]
      leaf_polygon [of node L "TransformObject (Transform_matmul L m t)" s]
    by (auto simp: visit_polyline_def visit_polygon_def points_path_def obind_def Let_def)
  then show ?thesis
    using traverse_leaf [OF assms(1), of depth rest m pv s] by (simp add: obind_def)
qed

text \<open>
  C6. On a polyline or a polygon whose \<^verbatim>\<open>points\<close> attribute is missing, empty or blank,
  the traversal, entered with a \<^verbatim>\<open>Transform\<close> object, counts a path and then raises
  \<^verbatim>\<open>IndexError\<close>: the node is not skipped and the nodes after it are not visited.
\<close>

theorem empty_points_raise:
  assumes "Transform_str L (node_get node ''transform'') = Some t"
    and "tag_is node ''polyline'' ''svg'' \<or> tag_is node ''polygon'' ''svg''"
    and "py_split (py_strip (node_get_default node ''points'' [])) = []"
  shows "recursively_traverse_svg L (Suc depth) (node # rest) (TransformObject m) pv s =
     Raise IndexError (s\<lparr>path_count := path_count s + 1\<rparr>)"
  using assms by (rule empty_points_traversal)

theorem empty_points_raise_witness:
  "recursively_traverse_svg example_lib 1
     [svg_node ''polyline'' [(''points'', '' '')], svg_node ''path'' [(''d'', ''M 0 0 L 10 0'')]]
     (TransformObject ((1, 0, 0), (0, 1, 0))) ''visible'' gcode_job_state
   = Raise IndexError (gcode_job_state\<lparr>path_count := 1\<rparr>)"
  using empty_points_raise
    [of example_lib "svg_node ''polyline'' [(''points'', '' '')]" "((1, 0, 0), (0, 1, 0))" 0
        "[svg_node ''path'' [(''d'', ''M 0 0 L 10 0'')]]"
        "((1, 0, 0), (0, 1, 0))" "''visible''" gcode_job_state]
  by (simp add: example_lib_def svg_node_def node_get_def node_get_default_def tag_is_def
      py_split_def py_strip_def lstrip_def rstrip_def isspace_char_def
      gcode_job_state_def init_state_def)

text \<open>
  C5. A circle or an ellipse with a radius of zero is not skipped: the traversal, entered with
  a \<^verbatim>\<open>Transform\<close> object, counts a path, builds the path of two arcs with these radii and
  hands it to \<^verbatim>\<open>plot_path\<close>, as for any other radius. In the example a circle with \<open>r = 0\<close> at \<open>(10, 10)\<close> writes two motion
  commands to the G-code file.
\<close>

theorem zero_radius_is_plotted:
  assumes "Transform_str L (node_get node ''transform'') = Some t"
    and "(tag_is node ''circle'' ''svg''
          \<and> lib_float L (node_get_default node ''r'' ''0'') = Some rx \<and> ry = rx)
       \<or> (tag_is node ''ellipse'' ''svg''
          \<and> lib_float L (node_get_default node ''rx'' ''0'') = Some rx
          \<and> lib_float L (node_get_default node ''ry'' ''0'') = Some ry)"
    and "rx = 0 \<or> ry = 0"
    and "lib_float L (node_get_default node ''cx'' ''0'') = Some cx"
    and "lib_float L (node_get_default node ''cy'' ''0'') = Some cy"
  shows "recursively_traverse_svg L (Suc depth) (node # rest) (TransformObject m) pv s =
     obind (plot_path L (Some (ellipse_path L cx cy rx ry)) (TransformObject (Transform_matmul L m t))
              (s\<lparr>path_count := path_count s + 1\<rparr>))
       (\<lambda>s1. recursively_traverse_svg L (Suc depth) rest (TransformObject m) pv
               (s1\<lparr>svg_last_path := svg_last_path s1 + 1, svg_last_path_NC := node_count s1\<rparr>))"
proof -
  let ?m = "TransformObject (Transform_matmul L m t)"
  have "\<not> tag_is node ''g'' ''svg'' \<and> \<not> tag_is node ''use'' ''svg''
      \<and> visit_leaf L node ?m s =
          obind (plot_path L (Some (ellipse_path L cx cy rx ry)) ?m
                   (s\<lparr>path_count := path_count s + 1\<rparr>)) after_path"
    using assms(2,4,5) leaf_circle [of node L ?m s] leaf_ellipse [of node L ?m s]
    by (auto simp: visit_ellipse_def py_float_def obind_def Let_def)
  then show ?thesis
    using traverse_leaf [OF assms(1), of depth rest m pv s]
    by (simp add: obind_def after_path_def split: outcome.splits)
qed

theorem zero_radius_is_plotted_witness:
  "recursively_traverse_svg example_lib (Suc 0)
     [svg_node ''circle'' [(''cx'', ''10''), (''cy'', ''10''), (''r'', ''0'')]]
     (TransformObject ((1, 0, 0), (0, 1, 0))) ''visible'' gcode_job_state
   = Ok (gcode_job_state
          \<lparr>pen_is_up := False, fX := Some 10, fY := Some 10,
           fPrevX := Some 10, fPrevY := Some 10, ptFirst := Some (Some 0, Some 2000),
           node_count := 1, path_count := 1, svg_last_path := 1, svg_last_path_NC := 1,
           svg_total_delta_X := 10, svg_total_delta_Y := - 1990,
           trace := [Wrote ''G01 X0 Y0 Z1000\<newline>'', Wrote ''G01 X0 Y0 Z0\<newline>'']\<rparr>)"
proof -
  let ?node = "svg_node ''circle'' [(''cx'', ''10''), (''cy'', ''10''), (''r'', ''0'')]"
  let ?d = "''M 10.000000,10.000000 A 0.000000,0.000000 0 1 0 10.000000,10.000000 A 0.000000,0.000000 0 1 0 10.000000,10.000000''"
  let ?s1 = "gcode_job_state\<lparr>path_count := path_count gcode_job_state + 1\<rparr>"
  have sub: "0 \<le> flat \<Longrightarrow> subdivide_cubic_path example_lib sp flat i = Some sp" for sp flat i
    by (rule subdivide_flat) (simp add: example_lib_def)
  have step: "recursively_traverse_svg example_lib (Suc 0) [?node]
       (TransformObject ((1, 0, 0), (0, 1, 0))) ''visible'' gcode_job_state =
     obind (plot_path example_lib (Some (ellipse_path example_lib 10 10 0 0))
              (TransformObject (Transform_matmul example_lib ((1, 0, 0), (0, 1, 0)) ((1, 0, 0), (0, 1, 0)))) ?s1)
       (\<lambda>s1. recursively_traverse_svg example_lib (Suc 0) [] (TransformObject ((1, 0, 0), (0, 1, 0))) ''visible''
               (s1\<lparr>svg_last_path := svg_last_path s1 + 1, svg_last_path_NC := node_count s1\<rparr>))"
    by (rule zero_radius_is_plotted)
       (simp_all add: example_lib_def svg_node_def node_get_def node_get_default_def tag_is_def)
  have d: "ellipse_path example_lib 10 10 0 0 = ?d"
    by (simp add: ellipse_path_def example_lib_def fmt_d_0)
  have len: "Path_len example_lib (Some ?d) = 3"
    by (simp add: example_lib_def)
  have csp: "CubicSuperPath example_lib (Some ?d) =
       [[((10, 10), (10, 10), (10, 10)), ((10, 10), (10, 10), (10, 10)),
         ((10, 10), (10, 10), (10, 10))]]"
    by (simp add: example_lib_def)
  have path: "plot_path example_lib (Some (ellipse_path example_lib 10 10 0 0)) m ?s1 =
     obind (plot_points
              [((10, 10), (10, 10), (10, 10)), ((10, 10), (10, 10), (10, 10)),
               ((10, 10), (10, 10), (10, 10))] 0 ?s1) Ok" for m
    unfolding plot_path_def d len csp Let_def
    by (simp add: sub gcode_job_state_def init_state_def default_options_def obind_def
        split: outcome.splits del: plot_points.simps)
  show ?thesis
    unfolding step path
    by (simp add: gcode_job_state_def init_state_def default_options_def
        Let_def obind_def plot_line_def distance_def plot_line_loop_once file_command
        pen_up_def pen_down_def fmt_d_0)
qed

subsection \<open>Progress state\<close>

lemma scan_marker_free:
  "marker_free (children n) \<Longrightarrow> recursive_lus_data_scan n s = Ok (n, s)"
  "marker_free cs \<Longrightarrow> lus_scan_loop cs s = Ok (cs, s)"
proof (induction n s and cs s rule: recursive_lus_data_scan_lus_scan_loop.induct)
  case (1 t a cs s)
  then show ?case by (auto simp: obind_def)
next
  case (2 s)
  then show ?case by simp
next
  case (3 node rest s)
  obtain t a cs where n: "node = Node t a cs" by (cases node)
  from "3.prems" have mf: "marker_free_node node" "marker_free rest" by simp_all
  have first: "(if tag node = Tag ''svg'' then recursive_lus_data_scan node s
        else if tag node = Tag (addNS ''botbot'' ''svg'') \<or> tag node = Tag ''lus'' then
          read_marker node s
        else Ok (node, s)) = Ok (node, s)"
    using mf(1) "3.IH"(1) n by auto
  from "3.IH"(2) [OF first refl mf(2)] have "lus_scan_loop rest s = Ok (rest, s)" .
  with first show ?case by (simp add: obind_def)
qed

lemma scan_prefix_free:
  "marker_free pre \<Longrightarrow>
   lus_scan_loop (pre @ xs) s = obind (lus_scan_loop xs s) (\<lambda>(xs1, s1). Ok (pre @ xs1, s1))"
proof (induction pre)
  case Nil
  show ?case by (simp add: obind_def split: outcome.splits)
next
  case (Cons n pre)
  then have n: "marker_free_node n" and p: "marker_free pre" by simp_all
  have first: "(if tag n = Tag ''svg'' then recursive_lus_data_scan n s
        else if tag n = Tag (addNS ''botbot'' ''svg'') \<or> tag n = Tag ''lus'' then
          read_marker n s
        else Ok (n, s)) = Ok (n, s)"
  proof (cases n)
    case (Node t a cs)
    with n have "t = Tag ''svg'' \<Longrightarrow> marker_free (children n)" by simp
    from scan_marker_free(1) [OF this, of s] Node n show ?thesis by auto
  qed
  show ?case
    using Cons.IH [OF p] first
    by (simp add: obind_def split: outcome.splits)
qed

lemma str_int_0: "str_int 0 = ''0''"
  by (simp add: str_int_def str_nat.simps digit_char_def)

lemma read_marker_unparsable:
  assumes "node_get m ''layer'' = Some l" and "py_int l = Some lv"
    and "node_get m ''node'' = Some n" and "py_int n = Some nv"
    and "node_get m ''lastpath'' = Some a" and "node_get m ''lastpathnc'' = Some b"
    and "node_get m ''totaldeltax'' = Some c" and "node_get m ''totaldeltay'' = Some d"
    and "py_int a = None \<or> py_int b = None \<or> py_int c = None \<or> py_int d = None"
  shows "\<exists>s1. read_marker m s = Ok (zeroed_marker m, s1)
     \<and> svg_data_read s1 \<and> svg_layer s1 = lv \<and> svg_node_count s1 = nv
     \<and> svg s1 = svg s \<and> trace s1 = trace s"
  using assms
  by (cases "py_int a"; cases "py_int b"; cases "py_int c"; cases "py_int d")
     (simp_all add: read_marker_def read_marker_try_def int_attr_def obind_def Let_def
        zeroed_marker_def str_int_0)


text \<open>
  C7, as amended. When the scan finds no marker element, a new \<^verbatim>\<open>lus\<close> element with the six
  attributes set to \<^verbatim>\<open>0\<close> is appended to the root and the fields of the object are left as
  they are (zero after \<^verbatim>\<open>__init__\<close>). When the one marker has \<^verbatim>\<open>layer\<close> and \<^verbatim>\<open>node\<close>
  attributes that parse, and carries \<^verbatim>\<open>lastpath\<close>, \<^verbatim>\<open>lastpathnc\<close>, \<^verbatim>\<open>totaldeltax\<close> and
  \<^verbatim>\<open>totaldeltay\<close> of which at least one is not an integer, these four attributes are reset
  to \<^verbatim>\<open>0\<close> on the marker, \<^verbatim>\<open>layer\<close> and \<^verbatim>\<open>node\<close> are taken from the marker, and the state
  is marked as read. In both cases the job goes on.
\<close>

theorem progress_state_absent_or_unparsable:
  assumes "svg s = Node t atts cs"
  shows "(marker_free cs \<longrightarrow>
            check_svg_for_lus_data s =
              Ok (s\<lparr>svg_data_read := False, svg := Node t atts (cs @ [new_lus_marker])\<rparr>))
     \<and> (cs = pre @ m # post \<and> marker_free pre \<and> marker_free post
          \<and> (tag m = Tag (addNS ''botbot'' ''svg'') \<or> tag m = Tag ''lus'')
          \<and> node_get m ''layer'' = Some l \<and> py_int l = Some lv
          \<and> node_get m ''node'' = Some n \<and> py_int n = Some nv
          \<and> node_get m ''lastpath'' = Some a \<and> node_get m ''lastpathnc'' = Some b
          \<and> node_get m ''totaldeltax'' = Some c \<and> node_get m ''totaldeltay'' = Some d
          \<and> (py_int a = None \<or> py_int b = None \<or> py_int c = None \<or> py_int d = None) \<longrightarrow>
          (\<exists>s1. check_svg_for_lus_data s = Ok s1
             \<and> svg_data_read s1 \<and> svg_layer s1 = lv \<and> svg_node_count s1 = nv
             \<and> svg s1 = Node t atts (pre @ zeroed_marker m # post) \<and> trace s1 = trace s))"
proof (intro conjI impI)
  assume "marker_free cs"
  then have "recursive_lus_data_scan (Node t atts cs) (s\<lparr>svg_data_read := False\<rparr>) =
      Ok (Node t atts cs, s\<lparr>svg_data_read := False\<rparr>)"
    using scan_marker_free(2) [of cs "s\<lparr>svg_data_read := False\<rparr>"] by (simp add: obind_def)
  with assms show "check_svg_for_lus_data s =
      Ok (s\<lparr>svg_data_read := False, svg := Node t atts (cs @ [new_lus_marker])\<rparr>)"
    unfolding check_svg_for_lus_data_def by (simp add: obind_def Let_def)
next
  assume h: "cs = pre @ m # post \<and> marker_free pre \<and> marker_free post
          \<and> (tag m = Tag (addNS ''botbot'' ''svg'') \<or> tag m = Tag ''lus'')
          \<and> node_get m ''layer'' = Some l \<and> py_int l = Some lv
          \<and> node_get m ''node'' = Some n \<and> py_int n = Some nv
          \<and> node_get m ''lastpath'' = Some a \<and> node_get m ''lastpathnc'' = Some b
          \<and> node_get m ''totaldeltax'' = Some c \<and> node_get m ''totaldeltay'' = Some d
          \<and> (py_int a = None \<or> py_int b = None \<or> py_int c = None \<or> py_int d = None)"
  let ?s0 = "s\<lparr>svg_data_read := False\<rparr>"
  from h obtain s1 where
    rm: "read_marker m ?s0 = Ok (zeroed_marker m, s1)" and
    p: "svg_data_read s1" "svg_layer s1 = lv" "svg_node_count s1 = nv"
       "svg s1 = svg ?s0" "trace s1 = trace ?s0"
    using read_marker_unparsable [of m l lv n nv a b c d ?s0] by blast
  from h have tagm: "tag m \<noteq> Tag ''svg''"
    by (auto simp: addNS_def)
  have post: "lus_scan_loop post s1 = Ok (post, s1)"
    using h scan_marker_free(2) by blast
  have "lus_scan_loop (m # post) ?s0 = Ok (zeroed_marker m # post, s1)"
    using h tagm rm post by (simp add: obind_def)
  then have "lus_scan_loop cs ?s0 = Ok (pre @ zeroed_marker m # post, s1)"
    using h scan_prefix_free [of pre "m # post" ?s0] by (simp add: obind_def)
  then have "recursive_lus_data_scan (Node t atts cs) ?s0 =
      Ok (Node t atts (pre @ zeroed_marker m # post), s1)"
    by (simp add: obind_def)
  with assms p show "\<exists>s1. check_svg_for_lus_data s = Ok s1
             \<and> svg_data_read s1 \<and> svg_layer s1 = lv \<and> svg_node_count s1 = nv
             \<and> svg s1 = Node t atts (pre @ zeroed_marker m # post) \<and> trace s1 = trace s"
    unfolding check_svg_for_lus_data_def by (simp add: obind_def Let_def)
qed

lemma py_int_examples:
  "py_int ''7'' = Some 7" "py_int ''3'' = Some 3" "py_int ''4'' = Some 4"
  "py_int ''5'' = Some 5" "py_int ''6'' = Some 6" "py_int ''x'' = None"
  by (simp_all add: py_int_def py_strip_def lstrip_def rstrip_def isspace_char_def
      valid_int_body_def ascii_digit_def digits_value_def Let_def)


theorem progress_state_absent_or_unparsable_witness:
  "check_svg_for_lus_data (fresh_state (document_example [svg_node ''g'' []])) =
     Ok ((fresh_state (document_example [svg_node ''g'' []]))
           \<lparr>svg := document_example [svg_node ''g'' [], new_lus_marker]\<rparr>)
   \<and> (\<exists>s1. check_svg_for_lus_data
              (fresh_state (document_example [svg_node ''g'' [], marker_example ''7'' ''x''])) = Ok s1
         \<and> svg_data_read s1 \<and> svg_layer s1 = 7 \<and> svg_node_count s1 = 3
         \<and> svg s1 = document_example [svg_node ''g'' [], zeroed_marker (marker_example ''7'' ''x'')]
         \<and> trace s1 = [])"
proof
  let ?s = "fresh_state (document_example [svg_node ''g'' []])"
  have mf: "marker_free [svg_node ''g'' []]"
    by (simp add: svg_node_def addNS_def NSS_def)
  have "svg ?s = Node (Tag (addNS ''svg'' ''svg''))
          [(''width'', ''100''), (''height'', ''100''), (''viewBox'', ''10 10 100 100'')]
          [svg_node ''g'' []]"
    by (simp add: fresh_state_def document_example_def)
  from progress_state_absent_or_unparsable [OF this] mf
  show "check_svg_for_lus_data ?s = Ok (?s\<lparr>svg := document_example [svg_node ''g'' [], new_lus_marker]\<rparr>)"
    by (simp add: fresh_state_def init_state_def document_example_def)
next
  let ?m = "marker_example ''7'' ''x''"
  let ?s = "fresh_state (document_example [svg_node ''g'' [], ?m])"
  have mf: "marker_free [svg_node ''g'' []]" "marker_free []"
    by (simp_all add: svg_node_def addNS_def NSS_def)
  have sv: "svg ?s = Node (Tag (addNS ''svg'' ''svg''))
          [(''width'', ''100''), (''height'', ''100''), (''viewBox'', ''10 10 100 100'')]
          [svg_node ''g'' [], ?m]"
    by (simp add: fresh_state_def document_example_def)
  have m: "tag ?m = Tag ''lus''" "node_get ?m ''layer'' = Some ''7''"
    "node_get ?m ''node'' = Some ''3''" "node_get ?m ''lastpath'' = Some ''x''"
    "node_get ?m ''lastpathnc'' = Some ''4''" "node_get ?m ''totaldeltax'' = Some ''5''"
    "node_get ?m ''totaldeltay'' = Some ''6''"
    by (simp_all add: marker_example_def node_get_def)
  from progress_state_absent_or_unparsable
    [OF sv, of "[svg_node ''g'' []]" ?m "[]" "''7''" 7 "''3''" 3 "''x''" "''4''" "''5''" "''6''"]
    mf m py_int_examples
  show "\<exists>s1. check_svg_for_lus_data ?s = Ok s1
         \<and> svg_data_read s1 \<and> svg_layer s1 = 7 \<and> svg_node_count s1 = 3
         \<and> svg s1 = document_example [svg_node ''g'' [], zeroed_marker ?m]
         \<and> trace s1 = []"
    by (simp add: fresh_state_def init_state_def document_example_def)
qed

text \<open>
  C7 as stated fails: a marker whose \<^verbatim>\<open>layer\<close> is not an integer aborts the job with
  \<^verbatim>\<open>ValueError\<close>, and a marker with layer 7 and an unparsable \<^verbatim>\<open>lastpath\<close> leaves the layer
  at 7, in the object and on the marker.
\<close>

theorem progress_state_unparsable_counterexample:
  "check_svg_for_lus_data (fresh_state (document_example [marker_example ''x'' ''0''])) =
     Raise ValueError (fresh_state (document_example [marker_example ''x'' ''0'']))
   \<and> (\<exists>s1. check_svg_for_lus_data (fresh_state (document_example [marker_example ''7'' ''x''])) = Ok s1
         \<and> svg_layer s1 = 7
         \<and> node_get (hd (children (svg s1))) ''layer'' = Some ''7'')"
proof
  show "check_svg_for_lus_data (fresh_state (document_example [marker_example ''x'' ''0''])) =
     Raise ValueError (fresh_state (document_example [marker_example ''x'' ''0'']))"
    by (simp add: check_svg_for_lus_data_def fresh_state_def document_example_def
        marker_example_def init_state_def obind_def read_marker_def int_attr_def node_get_def
        py_int_examples addNS_def NSS_def)
next
  show "\<exists>s1. check_svg_for_lus_data (fresh_state (document_example [marker_example ''7'' ''x''])) = Ok s1
         \<and> svg_layer s1 = 7
         \<and> node_get (hd (children (svg s1))) ''layer'' = Some ''7''"
    by (simp add: check_svg_for_lus_data_def fresh_state_def document_example_def
        marker_example_def init_state_def obind_def read_marker_def read_marker_try_def
        int_attr_def node_get_def node_set_def py_int_examples addNS_def NSS_def Let_def)
qed

subsection \<open>The entry point\<close>

lemma check_marker_free:
  assumes "marker_free cs"
  shows "check_svg_for_lus_data (s\<lparr>svg := Node t a cs\<rparr>) =
     Ok (s\<lparr>svg_data_read := False, svg := Node t a (cs @ [new_lus_marker])\<rparr>)"
proof -
  have "lus_scan_loop cs (s\<lparr>svg := Node t a cs, svg_data_read := False\<rparr>) =
      Ok (cs, s\<lparr>svg := Node t a cs, svg_data_read := False\<rparr>)"
    using assms by (rule scan_marker_free(2))
  then show ?thesis
    by (simp add: check_svg_for_lus_data_def obind_def Let_def)
qed

lemma polyline_marker_free: "marker_free [svg_node ''polyline'' [(''points'', '' '')]]"
  by (simp add: svg_node_def addNS_def NSS_def)

lemma fmt_d_1: "fmt_d 1 = ''1''" "fmt_d (- 10) = ''-10''"
  by (simp_all add: fmt_d_def str_int_def str_nat.simps digit_char_def)

lemma length_100: "parse_length_with_units example_lib ''100'' = Some (100, ''px'')"
  by (simp add: parse_length_with_units_def py_strip_def lstrip_def rstrip_def
      isspace_char_def example_lib_def Let_def)

lemma doc_properties_example:
  assumes "svg s = document_example cs \<or> svg s = document_without_viewbox cs"
  shows "get_doc_properties example_lib s = (True, s\<lparr>svg_width := Some 100, svg_height := Some 100\<rparr>)"
proof -
  have "node_get (svg s) ''height'' = Some ''100''" "node_get (svg s) ''width'' = Some ''100''"
    using assms by (auto simp: document_example_def document_without_viewbox_def node_get_def)
  then show ?thesis
    by (simp add: get_doc_properties_def get_length_def length_100 truthy_def Let_def)
qed

lemma viewbox_example:
  assumes "svg s = document_example cs" and "svg_width s = Some 100" and "svg_height s = Some 100"
  shows "apply_viewbox example_lib s =
     Ok (s\<lparr>svg_transform := TransformObject ((1, 0, - 10), (0, 1, - 10))\<rparr>)"
proof -
  have v: "node_get (svg s) ''viewBox'' = Some ''10 10 100 100''"
    using assms(1) by (simp add: document_example_def node_get_def)
  have sp: "split_on (CHR '' '') []
        (map (\<lambda>c. if c = CHR '','' then CHR '' '' else c) (py_strip ''10 10 100 100'')) =
      [''10'', ''10'', ''100'', ''100'']"
    by (simp add: py_strip_def lstrip_def rstrip_def isspace_char_def)
  have fl: "float_at example_lib [''10'', ''10'', ''100'', ''100''] i s =
      (if i < 4 then Ok ([10, 10, 100, 100] ! i) else Raise IndexError s)" for i
    by (cases "i < 4")
       (auto simp: float_at_def py_float_def example_lib_def less_Suc_eq numeral_eq_Suc)
  show ?thesis
    unfolding apply_viewbox_def v Let_def option.sel sp
    using assms(2,3) by (simp add: truthy_def fl obind_def) (simp add: example_lib_def fmt_d_1)
qed

lemma viewbox_absent:
  assumes "svg s = document_without_viewbox cs"
  shows "apply_viewbox example_lib s = Ok s"
  using assms by (simp add: apply_viewbox_def document_without_viewbox_def node_get_def truthy_def)

lemma empty_polyline_example:
  "recursively_traverse_svg example_lib (Suc k)
     (svg_node ''polyline'' [(''points'', '' '')] # rest) (TransformObject m) ''visible'' s =
   Raise IndexError (s\<lparr>path_count := path_count s + 1\<rparr>)"
  "recursively_traverse_svg example_lib (Suc k)
     (svg_node ''polyline'' [(''points'', '' '')] # rest) (PlainList m) ''visible'' s =
   Raise TypeError s"
proof -
  have t: "Transform_str example_lib (node_get (svg_node ''polyline'' [(''points'', '' '')]) ''transform'')
      = Some ((1, 0, 0), (0, 1, 0))"
    by (simp add: example_lib_def svg_node_def node_get_def)
  show "recursively_traverse_svg example_lib (Suc k)
     (svg_node ''polyline'' [(''points'', '' '')] # rest) (TransformObject m) ''visible'' s =
   Raise IndexError (s\<lparr>path_count := path_count s + 1\<rparr>)"
    by (rule empty_points_traversal [OF t])
       (simp_all add: svg_node_def node_get_def node_get_default_def tag_is_def
          py_split_def py_strip_def lstrip_def rstrip_def isspace_char_def)
  show "recursively_traverse_svg example_lib (Suc k)
     (svg_node ''polyline'' [(''points'', '' '')] # rest) (PlainList m) ''visible'' s =
   Raise TypeError s"
    by (rule traverse_plain_list [OF t])
qed

lemma plot_to_lus_empty_polyline:
  assumes "svg s = document_example (svg_node ''polyline'' [(''points'', '' '')] # rest)"
    and "0 < depth"
  shows "plot_to_lus example_lib depth s =
     Raise IndexError
       (s\<lparr>svg_width := Some 100, svg_height := Some 100,
          svg_transform := TransformObject ((1, 0, - 10), (0, 1, - 10)),
          path_count := path_count s + 1\<rparr>)"
proof -
  from assms(2) obtain k where k: "depth = Suc k" by (cases depth) simp_all
  let ?s1 = "s\<lparr>svg_width := Some 100, svg_height := Some 100\<rparr>"
  have dp: "get_doc_properties example_lib s = (True, ?s1)"
    using assms(1) by (intro doc_properties_example) blast
  have vb: "apply_viewbox example_lib ?s1 =
      Ok (?s1\<lparr>svg_transform := TransformObject ((1, 0, - 10), (0, 1, - 10))\<rparr>)"
    using assms(1) by (intro viewbox_example) simp_all
  have ch: "children (svg s) = svg_node ''polyline'' [(''points'', '' '')] # rest"
    using assms(1) by (simp add: document_example_def)
  show ?thesis
    unfolding plot_to_lus_def dp prod.case bool.case vb plot_to_lus_try_def k
    by (simp add: obind_def ch empty_polyline_example del: recursively_traverse_svg.simps)
qed

lemma plot_to_lus_without_viewbox:
  assumes "svg s = document_without_viewbox (svg_node ''polyline'' [(''points'', '' '')] # rest)"
    and "0 < depth" and "svg_transform s = PlainList m"
  shows "plot_to_lus example_lib depth s =
     Raise TypeError (s\<lparr>svg_width := Some 100, svg_height := Some 100\<rparr>)"
proof -
  from assms(2) obtain k where k: "depth = Suc k" by (cases depth) simp_all
  let ?s1 = "s\<lparr>svg_width := Some 100, svg_height := Some 100\<rparr>"
  have dp: "get_doc_properties example_lib s = (True, ?s1)"
    using assms(1) by (intro doc_properties_example) blast
  have vb: "apply_viewbox example_lib ?s1 = Ok ?s1"
    using assms(1) by (intro viewbox_absent) simp
  have ch: "children (svg s) = svg_node ''polyline'' [(''points'', '' '')] # rest"
    using assms(1) by (simp add: document_without_viewbox_def)
  show ?thesis
    unfolding plot_to_lus_def dp prod.case bool.case vb plot_to_lus_try_def k
    using assms(3)
    by (simp add: obind_def ch empty_polyline_example del: recursively_traverse_svg.simps)
qed

text \<open>
  C8. On the network backend an exception raised during the traversal leaves \<^verbatim>\<open>effect\<close>
  before \<^verbatim>\<open>self._sock.close()\<close>: the socket is still open when the job ends. On the file
  backend the same exception leaves through the \<^verbatim>\<open>with\<close> statement, which closes the file.
  The document has a viewBox and an empty polyline, which raises \<^verbatim>\<open>IndexError\<close>; without
  the viewBox the traversal raises \<^verbatim>\<open>TypeError\<close> at its first node, and the socket is left
  open as well.
\<close>

theorem effect_exception_leaves_socket_open:
  "effect example_lib 10 empty_polyline_document (init_state (job_options ''splash'') [] []) =
     Raise IndexError
       ((init_state (job_options ''splash'') [] [])
          \<lparr>path_count := 1, svg_layer := 12345, svg_width := Some 100, svg_height := Some 100,
           svg_transform := TransformObject ((1, 0, - 10), (0, 1, - 10)),
           LU := True, all_layers := True, plot_current_layer := True, connected := True,
           svg := document_example [svg_node ''polyline'' [(''points'', '' '')], new_lus_marker],
           sock := Opened, trace := [ErrMsg ''Connected'']\<rparr>)
   \<and> effect example_lib 10 empty_polyline_document (init_state (job_options ''gcode'') [] []) =
     Raise IndexError
       ((init_state (job_options ''gcode'') [] [])
          \<lparr>path_count := 1, svg_layer := 12345, svg_width := Some 100, svg_height := Some 100,
           svg_transform := TransformObject ((1, 0, - 10), (0, 1, - 10)),
           GF := True, all_layers := True, plot_current_layer := True,
           svg := document_example [svg_node ''polyline'' [(''points'', '' '')], new_lus_marker],
           fil := Closed, trace := [Wrote ''G54 X0 Y0 S1\<newline>'', FileClose]\<rparr>)
   \<and> effect example_lib 10 plain_polyline_document (init_state (job_options ''splash'') [] []) =
     Raise TypeError
       ((init_state (job_options ''splash'') [] [])
          \<lparr>svg_layer := 12345, svg_width := Some 100, svg_height := Some 100,
           LU := True, all_layers := True, plot_current_layer := True, connected := True,
           svg := document_without_viewbox
                    [svg_node ''polyline'' [(''points'', '' '')], new_lus_marker],
           sock := Opened, trace := [ErrMsg ''Connected'']\<rparr>)"
proof (intro conjI)
  show "effect example_lib 10 empty_polyline_document (init_state (job_options ''splash'') [] []) =
     Raise IndexError
       ((init_state (job_options ''splash'') [] [])
          \<lparr>path_count := 1, svg_layer := 12345, svg_width := Some 100, svg_height := Some 100,
           svg_transform := TransformObject ((1, 0, - 10), (0, 1, - 10)),
           LU := True, all_layers := True, plot_current_layer := True, connected := True,
           svg := document_example [svg_node ''polyline'' [(''points'', '' '')], new_lus_marker],
           sock := Opened, trace := [ErrMsg ''Connected'']\<rparr>)"
    unfolding effect_def empty_polyline_document_def document_example_def
      check_marker_free [OF polyline_marker_free]
    by (simp add: obind_def effect_tab_def connect_def errormsg_def emit_def
        plot_to_lus_empty_polyline [unfolded document_example_def]
        init_state_def job_options_def default_options_def)
  show "effect example_lib 10 empty_polyline_document (init_state (job_options ''gcode'') [] []) =
     Raise IndexError
       ((init_state (job_options ''gcode'') [] [])
          \<lparr>path_count := 1, svg_layer := 12345, svg_width := Some 100, svg_height := Some 100,
           svg_transform := TransformObject ((1, 0, - 10), (0, 1, - 10)),
           GF := True, all_layers := True, plot_current_layer := True,
           svg := document_example [svg_node ''polyline'' [(''points'', '' '')], new_lus_marker],
           fil := Closed, trace := [Wrote ''G54 X0 Y0 S1\<newline>'', FileClose]\<rparr>)"
    unfolding effect_def empty_polyline_document_def document_example_def
      check_marker_free [OF polyline_marker_free]
    by (simp add: obind_def effect_tab_def with_open_def fil_write_def fil_close_def emit_def
        plot_to_lus_empty_polyline [unfolded document_example_def]
        init_state_def job_options_def default_options_def)
  show "effect example_lib 10 plain_polyline_document (init_state (job_options ''splash'') [] []) =
     Raise TypeError
       ((init_state (job_options ''splash'') [] [])
          \<lparr>svg_layer := 12345, svg_width := Some 100, svg_height := Some 100,
           LU := True, all_layers := True, plot_current_layer := True, connected := True,
           svg := document_without_viewbox
                    [svg_node ''polyline'' [(''points'', '' '')], new_lus_marker],
           sock := Opened, trace := [ErrMsg ''Connected'']\<rparr>)"
    unfolding effect_def plain_polyline_document_def document_without_viewbox_def
      check_marker_free [OF polyline_marker_free]
    by (simp add: obind_def effect_tab_def connect_def errormsg_def emit_def
        plot_to_lus_without_viewbox [unfolded document_without_viewbox_def]
        init_state_def job_options_def default_options_def)
qed

end
